theory Spec2Isabelle
  imports Complex_Main
begin

section \<open>JavaScript numbers and strings\<close>

text \<open>
  The calculator works on JavaScript numbers read from form inputs. A number is \<open>NaN\<close> or
  a real. The arithmetic is that of a floating-point format: an operation gives the exact
  result rounded to the format, and so does reading a decimal literal. The rounding is a
  parameter of the model, written \<open>rnd\<close>: \<open>round64\<close> below is the rounding of the
  program's binary64 numbers, \<open>exact\<close> rounds nothing. Comparisons and \<^verbatim>\<open>Math.ceil\<close>
  are exact in any format. The infinities and the sign of zero are not part of the model.
  An operation with a \<open>NaN\<close> operand gives \<open>NaN\<close>, and every comparison with \<open>NaN\<close> is
  false, as in the language.
\<close>

datatype jsnum = NaN | Num real

type_synonym rounding = "real \<Rightarrow> real"

definition exact :: rounding where
  "exact x = x"

text \<open>
  Rounding to binary64, to nearest with ties to even: the number is brought to a mantissa
  \<open>m\<close> with \<open>2\<^sup>5\<^sup>2 \<le> \<bar>m\<bar> < 2\<^sup>5\<^sup>3\<close> by halving or doubling it, the mantissa is rounded to an
  integer, and the exponent is put back. The exponent is searched over more steps than
  binary64 has exponents and is not bounded otherwise: there is no overflow to an infinity
  and no gradual underflow.
\<close>

fun scale :: "nat \<Rightarrow> real \<Rightarrow> int \<Rightarrow> real \<times> int" where
  "scale fuel m e =
     (if fuel = 0 then (m, e)
      else if 2 ^ 53 \<le> \<bar>m\<bar> then scale (fuel - 1) (m / 2) (e + 1)
      else if \<bar>m\<bar> < 2 ^ 52 then scale (fuel - 1) (m * 2) (e - 1)
      else (m, e))"

declare scale.simps [simp del]

definition nearest_even :: "real \<Rightarrow> int" where
  "nearest_even m =
     (let f = \<lfloor>m\<rfloor>; d = m - of_int f
      in if d < 1 / 2 then f
         else if 1 / 2 < d then f + 1
         else if even f then f else f + 1)"

definition round64 :: rounding where
  "round64 x =
     (if x = 0 then 0
      else (let (m, e) = scale 2200 x 0; n = nearest_even m
            in if 0 \<le> e then of_int n * 2 ^ nat e else of_int n / 2 ^ nat (- e)))"

fun isNaN :: "jsnum \<Rightarrow> bool" where
  "isNaN NaN = True"
| "isNaN (Num x) = False"

fun js_add :: "rounding \<Rightarrow> jsnum \<Rightarrow> jsnum \<Rightarrow> jsnum" where
  "js_add rnd (Num x) (Num y) = Num (rnd (x + y))"
| "js_add rnd _ _ = NaN"

fun js_sub :: "rounding \<Rightarrow> jsnum \<Rightarrow> jsnum \<Rightarrow> jsnum" where
  "js_sub rnd (Num x) (Num y) = Num (rnd (x - y))"
| "js_sub rnd _ _ = NaN"

fun js_mul :: "rounding \<Rightarrow> jsnum \<Rightarrow> jsnum \<Rightarrow> jsnum" where
  "js_mul rnd (Num x) (Num y) = Num (rnd (x * y))"
| "js_mul rnd _ _ = NaN"

text \<open>
  Division: \<open>0 / 0\<close> is \<open>NaN\<close>. A nonzero number divided by zero is an infinity in
  JavaScript, which \<open>jsnum\<close> does not have; \<open>js_div\<close> gives \<open>NaN\<close> there, and the
  theorems below only rely on quotients whose divisor is nonzero or whose operands are
  both zero.
\<close>

fun js_div :: "rounding \<Rightarrow> jsnum \<Rightarrow> jsnum \<Rightarrow> jsnum" where
  "js_div rnd (Num x) (Num y) = (if y = 0 then NaN else Num (rnd (x / y)))"
| "js_div rnd _ _ = NaN"

fun js_lt :: "jsnum \<Rightarrow> jsnum \<Rightarrow> bool" where
  "js_lt (Num x) (Num y) = (x < y)"
| "js_lt _ _ = False"

fun js_le :: "jsnum \<Rightarrow> jsnum \<Rightarrow> bool" where
  "js_le (Num x) (Num y) = (x \<le> y)"
| "js_le _ _ = False"

definition js_gt :: "jsnum \<Rightarrow> jsnum \<Rightarrow> bool" where
  "js_gt a b = js_lt b a"

definition js_ge :: "jsnum \<Rightarrow> jsnum \<Rightarrow> bool" where
  "js_ge a b = js_le b a"

text \<open>\<^verbatim>\<open>Math.ceil\<close>.\<close>

fun Math_ceil :: "jsnum \<Rightarrow> jsnum" where
  "Math_ceil (Num x) = Num (of_int \<lceil>x\<rceil>)"
| "Math_ceil NaN = NaN"

subsection \<open>\<^verbatim>\<open>parseFloat\<close>\<close>

text \<open>
  \<^verbatim>\<open>parseFloat\<close> skips leading white space and reads the longest prefix that is a
  decimal literal: an optional sign, digits with an optional fraction (or a fraction
  alone), and an optional exponent, which counts only when it has a digit. Anything after the
  prefix is ignored; without such a prefix the result is \<open>NaN\<close>. The value is the
  literal's, rounded; the literal \<^verbatim>\<open>Infinity\<close> has no value in \<open>jsnum\<close> and reads
  as \<open>NaN\<close>. The strings
  come from inputs that ui.js creates with \<^verbatim>\<open>type="number"\<close>, which hold the empty
  string or a decimal literal and never \<^verbatim>\<open>Infinity\<close>.
\<close>

definition is_digit :: "char \<Rightarrow> bool" where
  "is_digit c = (c \<in> set ''0123456789'')"

definition is_space :: "char \<Rightarrow> bool" where
  "is_space c = (c \<in> {CHR '' '', CHR 0x09, CHR 0x0A, CHR 0x0B, CHR 0x0C, CHR 0x0D})"

definition digit_val :: "char \<Rightarrow> nat" where
  "digit_val c = of_char c - 48"

definition digits_val :: "string \<Rightarrow> nat" where
  "digits_val ds = foldl (\<lambda>acc c. 10 * acc + digit_val c) 0 ds"

text \<open>The sign in front of a literal or of an exponent: is it negative, and what follows.\<close>

fun read_sign :: "string \<Rightarrow> bool \<times> string" where
  "read_sign [] = (False, [])"
| "read_sign (c # cs) =
     (if c = CHR ''-'' then (True, cs)
      else if c = CHR ''+'' then (False, cs)
      else (False, c # cs))"

text \<open>The exponent part after the mantissa; 0 when there is none or it has no digit.\<close>

fun read_exponent :: "string \<Rightarrow> int" where
  "read_exponent [] = 0"
| "read_exponent (c # cs) =
     (if c = CHR ''e'' \<or> c = CHR ''E'' then
        (let (neg, ds) = read_sign cs; e = takeWhile is_digit ds
         in if e = [] then 0
            else if neg then - int (digits_val e) else int (digits_val e))
      else 0)"

definition scale10 :: "real \<Rightarrow> int \<Rightarrow> real" where
  "scale10 m k = (if 0 \<le> k then m * 10 ^ nat k else m / 10 ^ nat (- k))"

definition parseFloat :: "rounding \<Rightarrow> string \<Rightarrow> jsnum" where
  "parseFloat rnd s =
     (let (neg, u) = read_sign (dropWhile is_space s);
          ip = takeWhile is_digit u;
          r1 = dropWhile is_digit u;
          (fp, r2) = (case r1 of
                        [] \<Rightarrow> ([], [])
                      | c # r \<Rightarrow> if c = CHR ''.''
                                 then (takeWhile is_digit r, dropWhile is_digit r)
                                 else ([], r1))
      in if ip = [] \<and> fp = [] then NaN
         else (let m = scale10 (real (digits_val (ip @ fp)))
                         (read_exponent r2 - int (length fp))
               in Num (rnd (if neg then - m else m))))"

section \<open>Grade scale\<close>

text \<open>
  \<^verbatim>\<open>getGradePoint(percentage)\<close> of utils.js: a chain of \<^verbatim>\<open>>=\<close> tests from the
  highest threshold down.
\<close>

definition getGradePoint :: "jsnum \<Rightarrow> nat" where
  "getGradePoint percentage =
     (if js_ge percentage (Num 80) then 10
      else if js_ge percentage (Num 70) then 9
      else if js_ge percentage (Num 60) then 8
      else if js_ge percentage (Num 55) then 7
      else if js_ge percentage (Num 50) then 6
      else if js_ge percentage (Num 45) then 5
      else if js_ge percentage (Num 40) then 4
      else 0)"

section \<open>Data model and page\<close>

text \<open>
  A subject of the catalog, with the members the calculation reads. The catalog's numbers
  are numeric literals, hence reals. The display name and the elective options only change
  what is printed and are left out.
\<close>

record field =
  name_f :: string
  max_f :: real

record subject =
  id_s :: nat
  credits :: real
  fields_s :: "field list"
  defaultHighest :: real

text \<open>
  The store of state.js: the subjects of the current selection and the grade point
  recorded for each subject id. \<^verbatim>\<open>updateGradePoint\<close> assigns one entry of
  \<^verbatim>\<open>gradePoints\<close>.
\<close>

record state =
  currentSubjects :: "subject list"
  gradePoints :: "nat \<rightharpoonup> nat"

definition updateGradePoint :: "state \<Rightarrow> nat \<Rightarrow> nat \<Rightarrow> state" where
  "updateGradePoint st subjectId gp = st\<lparr>gradePoints := (gradePoints st)(subjectId \<mapsto> gp)\<rparr>"

text \<open>
  The page: the elements that exist, by id, each with the \<^verbatim>\<open>value\<close> it holds (the
  empty string for an element that is not an input). \<^verbatim>\<open>getElementById\<close> gives
  \<^verbatim>\<open>null\<close>, here \<open>None\<close>, for an id that is not on the page; reading a member of
  \<^verbatim>\<open>null\<close> throws a TypeError, which ends the running function.
\<close>

type_synonym document = "string \<rightharpoonup> string"

definition getElementById :: "document \<Rightarrow> string \<Rightarrow> string option" where
  "getElementById doc i = doc i"

text \<open>A subject id or semester number inside an element id: its decimal digits.\<close>

fun toString :: "nat \<Rightarrow> string" where
  "toString n =
     (if n < 10 then [''0123456789'' ! n]
      else toString (n div 10) @ [''0123456789'' ! (n mod 10)])"

declare toString.simps [simp del]

definition inputId :: "nat \<Rightarrow> string \<Rightarrow> string" where
  "inputId subjectId fieldName = ''s'' @ toString subjectId @ ''-'' @ fieldName"

datatype 'a completion = Throw | Normal 'a

section \<open>Subject evaluator\<close>

text \<open>
  The denominator, as calculateSubject, updatePrediction and printResult all resolve it
  from the value of the \<^verbatim>\<open>-highest\<close> input: the default when the value does not parse
  or parses to zero, the parsed number otherwise.
\<close>

definition resolveHighest :: "rounding \<Rightarrow> string \<Rightarrow> real \<Rightarrow> jsnum" where
  "resolveHighest rnd highestValue dflt =
     (let highest = parseFloat rnd highestValue
      in if isNaN highest \<or> highest = Num 0 then Num dflt else highest)"

text \<open>
  The loop of calculateSubject over the fields, from the running total: it ends with
  the total and \<^verbatim>\<open>allFilled\<close>, leaving at the first field that is empty, does not
  parse, is negative or exceeds the field's maximum.
\<close>

fun sumFields :: "rounding \<Rightarrow> document \<Rightarrow> nat \<Rightarrow> field list \<Rightarrow> jsnum \<Rightarrow> (jsnum \<times> bool) completion" where
  "sumFields rnd doc subjectId [] total_m = Normal (total_m, True)"
| "sumFields rnd doc subjectId (f # rest) total_m =
     (case getElementById doc (inputId subjectId (name_f f)) of
        None \<Rightarrow> Throw
      | Some v \<Rightarrow>
          if v = [] \<or> isNaN (parseFloat rnd v) then Normal (total_m, False)
          else (let numValue = parseFloat rnd v
                in if js_lt numValue (Num 0) \<or> js_gt numValue (Num (max_f f))
                   then Normal (total_m, False)
                   else sumFields rnd doc subjectId rest (js_add rnd total_m numValue)))"

text \<open>
  What calculateSubject leaves behind: nothing when the id is not a current subject, a
  TypeError, or the content written to the result area, which is one of the two messages
  (the second names the default) or the total, the denominator, the percentage and the
  grade point.
\<close>

datatype subject_outcome =
    NoSubject
  | SubjectTypeError
  | IncompleteOrInvalid
  | HighestExceedsDefault real
  | SubjectResult jsnum jsnum jsnum nat

definition calculateSubject :: "rounding \<Rightarrow> state \<Rightarrow> document \<Rightarrow> nat \<Rightarrow> subject_outcome \<times> state" where
  "calculateSubject rnd st doc subjectId =
     (case find (\<lambda>s. id_s s = subjectId) (currentSubjects st) of
        None \<Rightarrow> (NoSubject, st)
      | Some subj \<Rightarrow>
         (let resultDiv = getElementById doc (''result'' @ toString subjectId)
          in case sumFields rnd doc subjectId (fields_s subj) (Num 0) of
               Throw \<Rightarrow> (SubjectTypeError, st)
             | Normal (total_m, allFilled) \<Rightarrow>
                 if \<not> allFilled then
                   (case resultDiv of
                      None \<Rightarrow> (SubjectTypeError, st)
                    | Some _ \<Rightarrow> (IncompleteOrInvalid, updateGradePoint st subjectId 0))
                 else
                   (case getElementById doc (inputId subjectId ''highest'') of
                      None \<Rightarrow> (SubjectTypeError, st)
                    | Some hv \<Rightarrow>
                       (let highest = resolveHighest rnd hv (defaultHighest subj)
                        in if js_gt highest (Num (defaultHighest subj)) then
                             (case resultDiv of
                                None \<Rightarrow> (SubjectTypeError, st)
                              | Some _ \<Rightarrow> (HighestExceedsDefault (defaultHighest subj),
                                          updateGradePoint st subjectId 0))
                           else
                             (let percentage = js_mul rnd (js_div rnd total_m highest) (Num 100);
                                  gradePoint = getGradePoint percentage;
                                  st' = updateGradePoint st subjectId gradePoint
                              in case resultDiv of
                                   None \<Rightarrow> (SubjectTypeError, st')
                                 | Some _ \<Rightarrow>
                                     (SubjectResult total_m highest percentage gradePoint, st'))))))"

section \<open>Exam-score predictor\<close>

text \<open>
  The \<^verbatim>\<open>forEach\<close> of updatePrediction, from the running \<^verbatim>\<open>currentTotal\<close> and
  \<^verbatim>\<open>anyFieldFilled\<close>: a field other than \<^verbatim>\<open>ese\<close> whose input exists and is not
  empty counts as filled, and adds its value when the value parses.
\<close>

fun sumNonEse :: "rounding \<Rightarrow> document \<Rightarrow> nat \<Rightarrow> field list \<Rightarrow> jsnum \<times> bool \<Rightarrow> jsnum \<times> bool" where
  "sumNonEse rnd doc subjectId [] acc = acc"
| "sumNonEse rnd doc subjectId (f # rest) (currentTotal, anyFieldFilled) =
     sumNonEse rnd doc subjectId rest
       (if name_f f \<noteq> ''ese'' then
          (case getElementById doc (inputId subjectId (name_f f)) of
             None \<Rightarrow> (currentTotal, anyFieldFilled)
           | Some v \<Rightarrow>
               if v \<noteq> [] then
                 (let val = parseFloat rnd v
                  in (if \<not> isNaN val then js_add rnd currentTotal val else currentTotal, True))
               else (currentTotal, anyFieldFilled))
        else (currentTotal, anyFieldFilled))"

text \<open>One half of the hint: what is said about reaching a grade point.\<close>

datatype verdict = AlreadySecured | Need jsnum real | NotPossible

definition verdictFor :: "jsnum \<Rightarrow> real \<Rightarrow> verdict" where
  "verdictFor need eseMax =
     (if js_le need (Num eseMax) then
        (if js_le need (Num 0) then AlreadySecured else Need need eseMax)
      else NotPossible)"

text \<open>
  What updatePrediction does to the hint below the ESE input: nothing (no such subject,
  or the subject has no \<^verbatim>\<open>ese\<close> field), a TypeError, the hint emptied, or the two
  verdicts, for 10 and for 9.
\<close>

datatype prediction_outcome =
    PredNoSubject
  | PredNoEse
  | PredTypeError
  | PredCleared
  | Prediction verdict verdict

definition updatePrediction :: "rounding \<Rightarrow> state \<Rightarrow> document \<Rightarrow> nat \<Rightarrow> prediction_outcome" where
  "updatePrediction rnd st doc subjectId =
     (case find (\<lambda>s. id_s s = subjectId) (currentSubjects st) of
        None \<Rightarrow> PredNoSubject
      | Some subj \<Rightarrow>
         (case find (\<lambda>f. name_f f = ''ese'') (fields_s subj) of
            None \<Rightarrow> PredNoEse
          | Some eseField \<Rightarrow>
             (let predictionDiv = getElementById doc (''prediction-'' @ toString subjectId)
              in case getElementById doc (inputId subjectId ''ese'') of
                   None \<Rightarrow> PredTypeError
                 | Some eseValue \<Rightarrow>
                     if eseValue \<noteq> [] then
                       (case predictionDiv of None \<Rightarrow> PredTypeError | Some _ \<Rightarrow> PredCleared)
                     else
                       (let (currentTotal, anyFieldFilled) =
                              sumNonEse rnd doc subjectId (fields_s subj) (Num 0, False)
                        in if \<not> anyFieldFilled then
                             (case predictionDiv of
                                None \<Rightarrow> PredTypeError
                              | Some _ \<Rightarrow> PredCleared)
                           else
                             (case getElementById doc (inputId subjectId ''highest'') of
                                None \<Rightarrow> PredTypeError
                              | Some hv \<Rightarrow>
                                 (let highest = resolveHighest rnd hv (defaultHighest subj);
                                      requiredFor10 = js_mul rnd (Num (rnd (8 / 10))) highest;
                                      requiredFor9 = js_mul rnd (Num (rnd (7 / 10))) highest;
                                      needFor10 = Math_ceil (js_sub rnd requiredFor10 currentTotal);
                                      needFor9 = Math_ceil (js_sub rnd requiredFor9 currentTotal);
                                      eseMax = max_f eseField
                                  in case predictionDiv of
                                       None \<Rightarrow> PredTypeError
                                     | Some _ \<Rightarrow>
                                         Prediction (verdictFor needFor10 eseMax)
                                                    (verdictFor needFor9 eseMax)))))))"

section \<open>SGPA aggregator\<close>

text \<open>
  The check of calculateOverallSGPA before it aggregates. The inner loop over the fields
  of one subject says whether it left \<^verbatim>\<open>allValid\<close> alone; its \<^verbatim>\<open>break\<close> leaves
  the inner loop only, so the outer loop goes on to the next subject.
\<close>

fun fieldsValid :: "rounding \<Rightarrow> document \<Rightarrow> nat \<Rightarrow> field list \<Rightarrow> bool completion" where
  "fieldsValid rnd doc subjectId [] = Normal True"
| "fieldsValid rnd doc subjectId (f # rest) =
     (case getElementById doc (inputId subjectId (name_f f)) of
        None \<Rightarrow> Throw
      | Some v \<Rightarrow>
          (let val = parseFloat rnd v
           in if isNaN val \<or> v = [] \<or> js_lt val (Num 0) \<or> js_gt val (Num (max_f f))
              then Normal False
              else fieldsValid rnd doc subjectId rest))"

fun checkInputs :: "rounding \<Rightarrow> document \<Rightarrow> subject list \<Rightarrow> bool \<Rightarrow> bool completion" where
  "checkInputs rnd doc [] allValid = Normal allValid"
| "checkInputs rnd doc (s # rest) allValid =
     (case fieldsValid rnd doc (id_s s) (fields_s s) of
        Throw \<Rightarrow> Throw
      | Normal ok \<Rightarrow> checkInputs rnd doc rest (allValid \<and> ok))"

text \<open>
  \<^verbatim>\<open>currentSubjects.forEach((sub) => calculateSubject(sub.id))\<close>: every subject is
  evaluated again, each call on the store the previous one left. The result says whether
  the loop came to its end (\<open>False\<close>: a call threw) and gives the store as it then is.
\<close>

fun recalculate :: "rounding \<Rightarrow> document \<Rightarrow> subject list \<Rightarrow> state \<Rightarrow> bool \<times> state" where
  "recalculate rnd doc [] st = (True, st)"
| "recalculate rnd doc (sub # rest) st =
     (case calculateSubject rnd st doc (id_s sub) of
        (SubjectTypeError, st') \<Rightarrow> (False, st')
      | (_, st') \<Rightarrow> recalculate rnd doc rest st')"

text \<open>
  The aggregation proper: \<^verbatim>\<open>gradePoints[subject.id] || 0\<close> is the recorded grade
  point, and 0 when none is recorded (a recorded 0 is falsy and gives 0 as well).
\<close>

definition gradePointOrZero :: "(nat \<rightharpoonup> nat) \<Rightarrow> nat \<Rightarrow> nat" where
  "gradePointOrZero gps subjectId =
     (case gps subjectId of None \<Rightarrow> 0 | Some gp \<Rightarrow> if gp = 0 then 0 else gp)"

fun sumCredits :: "rounding \<Rightarrow> (nat \<rightharpoonup> nat) \<Rightarrow> subject list \<Rightarrow> jsnum \<times> jsnum \<Rightarrow> jsnum \<times> jsnum" where
  "sumCredits rnd gps [] acc = acc"
| "sumCredits rnd gps (s # rest) (totalCreditPoints, totalCredits) =
     (let gp = gradePointOrZero gps (id_s s)
      in sumCredits rnd gps rest
           (js_add rnd totalCreditPoints (js_mul rnd (Num (real gp)) (Num (credits s))),
            js_add rnd totalCredits (Num (credits s))))"

definition aggregateSGPA :: "rounding \<Rightarrow> subject list \<Rightarrow> (nat \<rightharpoonup> nat) \<Rightarrow> jsnum" where
  "aggregateSGPA rnd subjects gps =
     (let (totalCreditPoints, totalCredits) = sumCredits rnd gps subjects (Num 0, Num 0)
      in js_div rnd totalCreditPoints totalCredits)"

text \<open>
  What calculateOverallSGPA writes to the output section: the request to enter all marks
  correctly, or the SGPA (with the breakdown, which repeats the recorded grade points).
  The output section and the print container must be on the page.
\<close>

datatype sgpa_outcome = SgpaTypeError | MarksMissing | SGPA jsnum

definition calculateOverallSGPA :: "rounding \<Rightarrow> state \<Rightarrow> document \<Rightarrow> sgpa_outcome \<times> state" where
  "calculateOverallSGPA rnd st doc =
     (case checkInputs rnd doc (currentSubjects st) True of
        Throw \<Rightarrow> (SgpaTypeError, st)
      | Normal allValid \<Rightarrow>
          if \<not> allValid then
            (case getElementById doc ''outputSection'' of
               None \<Rightarrow> (SgpaTypeError, st)
             | Some _ \<Rightarrow> (MarksMissing, st))
          else
            (case recalculate rnd doc (currentSubjects st) st of
               (False, st') \<Rightarrow> (SgpaTypeError, st')
             | (True, freshState) \<Rightarrow>
                (let sgpa = aggregateSGPA rnd (currentSubjects st) (gradePoints freshState)
                 in case (getElementById doc ''outputSection'',
                          getElementById doc ''printContainer'') of
                      (Some _, Some _) \<Rightarrow> (SGPA sgpa, freshState)
                    | _ \<Rightarrow> (SgpaTypeError, freshState))))"

section \<open>CGPA aggregator\<close>

text \<open>
  The first loop of calculateCGPA over the semesters, from the running
  \<^verbatim>\<open>totalCreditPoints\<close>, \<^verbatim>\<open>totalCredits\<close> and \<^verbatim>\<open>semestersEntered\<close>. A semester
  without both inputs is skipped. A row counts when both values parse and are positive;
  a row that counts and whose SGPA exceeds 10 ends the function with the message naming
  the semester (\<open>Inl\<close>).
\<close>

fun cgpaLoop ::
  "rounding \<Rightarrow> document \<Rightarrow> nat list \<Rightarrow> jsnum \<times> jsnum \<times> nat \<Rightarrow> nat + jsnum \<times> jsnum \<times> nat" where
  "cgpaLoop rnd doc [] acc = Inr acc"
| "cgpaLoop rnd doc (sem # rest) (totalCreditPoints, totalCredits, semestersEntered) =
     (case (getElementById doc (''sgpa'' @ toString sem),
            getElementById doc (''credits'' @ toString sem)) of
        (Some sv, Some cv) \<Rightarrow>
          (let sgpaValue = parseFloat rnd sv; creditsValue = parseFloat rnd cv
           in if \<not> isNaN sgpaValue \<and> \<not> isNaN creditsValue \<and>
                 js_gt sgpaValue (Num 0) \<and> js_gt creditsValue (Num 0)
              then (if js_gt sgpaValue (Num 10) then Inl sem
                    else cgpaLoop rnd doc rest
                           (js_add rnd totalCreditPoints (js_mul rnd sgpaValue creditsValue),
                            js_add rnd totalCredits creditsValue,
                            Suc semestersEntered))
              else cgpaLoop rnd doc rest (totalCreditPoints, totalCredits, semestersEntered))
      | _ \<Rightarrow> cgpaLoop rnd doc rest (totalCreditPoints, totalCredits, semestersEntered))"

text \<open>
  The second loop, which writes the breakdown, skips a semester without an SGPA input and
  then reads the credits input: it throws when that one is missing.
\<close>

definition breakdownThrows :: "document \<Rightarrow> bool" where
  "breakdownThrows doc =
     list_ex (\<lambda>s. getElementById doc (''sgpa'' @ toString s) \<noteq> None \<and>
                  getElementById doc (''credits'' @ toString s) = None) [1..<9]"

datatype cgpa_outcome = CgpaTypeError | SGPAOutOfRange nat | NoValidSemesters | CGPA jsnum

definition calculateCGPA :: "rounding \<Rightarrow> document \<Rightarrow> cgpa_outcome" where
  "calculateCGPA rnd doc =
     (let outputSection = getElementById doc ''cgpaOutputSection''
      in case cgpaLoop rnd doc [1..<9] (Num 0, Num 0, 0) of
           Inl sem \<Rightarrow>
             (case outputSection of None \<Rightarrow> CgpaTypeError | Some _ \<Rightarrow> SGPAOutOfRange sem)
         | Inr (totalCreditPoints, totalCredits, semestersEntered) \<Rightarrow>
             if semestersEntered = 0 then
               (case outputSection of None \<Rightarrow> CgpaTypeError | Some _ \<Rightarrow> NoValidSemesters)
             else
               (let cgpa = js_div rnd totalCreditPoints totalCredits
                in if breakdownThrows doc then CgpaTypeError
                   else (case outputSection of
                           None \<Rightarrow> CgpaTypeError
                         | Some _ \<Rightarrow> CGPA cgpa)))"

section \<open>Notions used to state the properties\<close>

text \<open>
  A running sum as the program's \<^verbatim>\<open>+=\<close> builds it: from a start value, one rounded
  addition for each number, from left to right. With no rounding it is the start value
  plus the sum of the list.
\<close>

definition sumFrom :: "rounding \<Rightarrow> real \<Rightarrow> real list \<Rightarrow> real" where
  "sumFrom rnd a xs = foldl (\<lambda>s x. rnd (s + x)) a xs"

text \<open>
  The number a field's input holds: the parsed value, and 0 when the input is missing,
  empty or does not parse.
\<close>

definition markOf :: "rounding \<Rightarrow> document \<Rightarrow> nat \<Rightarrow> field \<Rightarrow> real" where
  "markOf rnd doc subjectId f =
     (case getElementById doc (inputId subjectId (name_f f)) of
        None \<Rightarrow> 0
      | Some v \<Rightarrow> (case parseFloat rnd v of NaN \<Rightarrow> 0 | Num x \<Rightarrow> x))"

text \<open>
  An entered value is valid when it is present, numeric, not negative and at most the
  field's maximum.
\<close>

definition validMark :: "rounding \<Rightarrow> document \<Rightarrow> nat \<Rightarrow> field \<Rightarrow> bool" where
  "validMark rnd doc subjectId f =
     (case getElementById doc (inputId subjectId (name_f f)) of
        None \<Rightarrow> False
      | Some v \<Rightarrow> v \<noteq> [] \<and> (case parseFloat rnd v of NaN \<Rightarrow> False | Num x \<Rightarrow> 0 \<le> x \<and> x \<le> max_f f))"

text \<open>
  An entered value is invalid when it is the empty string, does not parse, is negative or
  exceeds the field's maximum.
\<close>

definition invalidMark :: "rounding \<Rightarrow> document \<Rightarrow> nat \<Rightarrow> field \<Rightarrow> bool" where
  "invalidMark rnd doc subjectId f =
     (case getElementById doc (inputId subjectId (name_f f)) of
        None \<Rightarrow> False
      | Some v \<Rightarrow> v = [] \<or> (case parseFloat rnd v of NaN \<Rightarrow> True | Num x \<Rightarrow> x < 0 \<or> max_f f < x))"

text \<open>
  The denominator in the words of the data model: the override when it is present,
  numeric, nonzero and valid (\<open>0 < override \<le> defaultHighest\<close>), the default otherwise.
\<close>

definition resolveHighest_claimed :: "rounding \<Rightarrow> string \<Rightarrow> real \<Rightarrow> real" where
  "resolveHighest_claimed rnd hv dflt =
     (case parseFloat rnd hv of
        NaN \<Rightarrow> dflt
      | Num x \<Rightarrow> if hv \<noteq> [] \<and> x \<noteq> 0 \<and> 0 < x \<and> x \<le> dflt then x else dflt)"

text \<open>A field's input is on the page and holds something.\<close>

definition filled :: "document \<Rightarrow> nat \<Rightarrow> field \<Rightarrow> bool" where
  "filled doc subjectId f =
     (case getElementById doc (inputId subjectId (name_f f)) of
        None \<Rightarrow> False
      | Some v \<Rightarrow> v \<noteq> [])"

text \<open>The fields other than the final exam.\<close>

definition nonFinal :: "field list \<Rightarrow> field list" where
  "nonFinal fs = filter (\<lambda>f. name_f f \<noteq> ''ese'') fs"

text \<open>
  The numbers entered in the given fields, in order: the parsed value of every input that
  is on the page and parses, whatever its range.
\<close>

definition numberOf :: "rounding \<Rightarrow> document \<Rightarrow> nat \<Rightarrow> field \<Rightarrow> real option" where
  "numberOf rnd doc subjectId f =
     (case getElementById doc (inputId subjectId (name_f f)) of
        None \<Rightarrow> None
      | Some v \<Rightarrow> (case parseFloat rnd v of NaN \<Rightarrow> None | Num x \<Rightarrow> Some x))"

definition numbersOf :: "rounding \<Rightarrow> document \<Rightarrow> nat \<Rightarrow> field list \<Rightarrow> real list" where
  "numbersOf rnd doc subjectId fs = List.map_filter (numberOf rnd doc subjectId) fs"

text \<open>
  The score needed for a share of the denominator, as the program computes it: the share
  (0.8 or 0.7, a rounded literal) times the denominator, minus the current total, each
  operation rounded, and the ceiling of that.
\<close>

definition neededFor :: "rounding \<Rightarrow> real \<Rightarrow> real \<Rightarrow> real \<Rightarrow> jsnum" where
  "neededFor rnd share highest currentTotal =
     Num (of_int \<lceil>rnd (rnd (rnd share * highest) - currentTotal)\<rceil>)"

text \<open>
  The verdict for a needed score, in the order the specification gives: already secured
  when nothing more is needed, the score when the final exam can give it, not achievable
  otherwise.
\<close>

definition verdictOf :: "jsnum \<Rightarrow> real \<Rightarrow> verdict" where
  "verdictOf need eseMax =
     (if js_le need (Num 0) then AlreadySecured
      else if js_le need (Num eseMax) then Need need eseMax
      else NotPossible)"

text \<open>
  The prediction in the words of the specification: the current total counts the valid
  values only (an invalid one counts 0), and an invalid override falls back to the
  default.
\<close>

definition validMarkOrZero :: "rounding \<Rightarrow> document \<Rightarrow> nat \<Rightarrow> field \<Rightarrow> real" where
  "validMarkOrZero rnd doc subjectId f =
     (if validMark rnd doc subjectId f then markOf rnd doc subjectId f else 0)"

definition prediction_claimed ::
  "rounding \<Rightarrow> document \<Rightarrow> subject \<Rightarrow> real \<Rightarrow> string \<Rightarrow> prediction_outcome" where
  "prediction_claimed rnd doc subj eseMax hv =
     (let currentTotal =
            sumFrom rnd 0 (map (validMarkOrZero rnd doc (id_s subj)) (nonFinal (fields_s subj)));
          highest = resolveHighest_claimed rnd hv (defaultHighest subj)
      in Prediction (verdictOf (neededFor rnd (8 / 10) highest currentTotal) eseMax)
                    (verdictOf (neededFor rnd (7 / 10) highest currentTotal) eseMax))"

text \<open>
  The elements updatePrediction reads or writes for a subject with a final exam: the
  ESE input, the hint below it and the input of the highest marks.
\<close>

definition predictionPage :: "document \<Rightarrow> nat \<Rightarrow> bool" where
  "predictionPage doc subjectId =
     (getElementById doc (inputId subjectId ''ese'') \<noteq> None \<and>
      getElementById doc (''prediction-'' @ toString subjectId) \<noteq> None \<and>
      getElementById doc (inputId subjectId ''highest'') \<noteq> None)"

text \<open>
  The grade points times credits of the subjects, each product rounded, and the credits,
  as the SGPA aggregation adds them up.
\<close>

definition creditPoints :: "rounding \<Rightarrow> (nat \<rightharpoonup> nat) \<Rightarrow> subject list \<Rightarrow> real list" where
  "creditPoints rnd gps subjects =
     map (\<lambda>s. rnd (real (gradePointOrZero gps (id_s s)) * credits s)) subjects"

text \<open>
  A row of the CGPA form: the parsed SGPA and credits of a semester whose two inputs are
  on the page. The row counts when both are numbers above 0, which is the test of
  calculateCGPA (a comparison with \<open>NaN\<close> being false).
\<close>

definition semesterRow :: "rounding \<Rightarrow> document \<Rightarrow> nat \<Rightarrow> (jsnum \<times> jsnum) option" where
  "semesterRow rnd doc sem =
     (case getElementById doc (''sgpa'' @ toString sem) of
        None \<Rightarrow> None
      | Some sv \<Rightarrow>
          (case getElementById doc (''credits'' @ toString sem) of
             None \<Rightarrow> None
           | Some cv \<Rightarrow> Some (parseFloat rnd sv, parseFloat rnd cv)))"

definition rowSgpa :: "rounding \<Rightarrow> document \<Rightarrow> nat \<Rightarrow> real" where
  "rowSgpa rnd doc sem = (case semesterRow rnd doc sem of Some (Num s, c) \<Rightarrow> s | _ \<Rightarrow> 0)"

definition rowCredits :: "rounding \<Rightarrow> document \<Rightarrow> nat \<Rightarrow> real" where
  "rowCredits rnd doc sem = (case semesterRow rnd doc sem of Some (s, Num c) \<Rightarrow> c | _ \<Rightarrow> 0)"

definition rowCounts :: "rounding \<Rightarrow> document \<Rightarrow> nat \<Rightarrow> bool" where
  "rowCounts rnd doc sem =
     (case semesterRow rnd doc sem of
        None \<Rightarrow> False
      | Some (s, c) \<Rightarrow> js_gt s (Num 0) \<and> js_gt c (Num 0))"

text \<open>The semesters whose rows count, in order.\<close>

definition counted :: "rounding \<Rightarrow> document \<Rightarrow> nat list" where
  "counted rnd doc = filter (rowCounts rnd doc) [1..<9]"

text \<open>
  The two running sums of calculateCGPA over the rows that count: SGPA times credits,
  each product rounded, and credits.
\<close>

definition totalCreditPointsOf :: "rounding \<Rightarrow> document \<Rightarrow> real" where
  "totalCreditPointsOf rnd doc =
     sumFrom rnd 0 (map (\<lambda>sem. rnd (rowSgpa rnd doc sem * rowCredits rnd doc sem)) (counted rnd doc))"

definition totalCreditsOf :: "rounding \<Rightarrow> document \<Rightarrow> real" where
  "totalCreditsOf rnd doc = sumFrom rnd 0 (map (rowCredits rnd doc) (counted rnd doc))"

subsection \<open>The examples of the specification\<close>

text \<open>
  The subject of the examples: id 1, an ISE of 20 and an ESE of 80, default denominator
  100; the store holding it; and its card on the page, with the three inputs as given.
\<close>

definition exampleSubject :: subject where
  "exampleSubject =
     \<lparr>id_s = 1, credits = 4,
      fields_s = [\<lparr>name_f = ''ise'', max_f = 20\<rparr>, \<lparr>name_f = ''ese'', max_f = 80\<rparr>],
      defaultHighest = 100\<rparr>"

definition exampleState :: state where
  "exampleState = \<lparr>currentSubjects = [exampleSubject], gradePoints = Map.empty\<rparr>"

definition examplePage :: "string \<Rightarrow> string \<Rightarrow> string \<Rightarrow> document" where
  "examplePage ise ese highest =
     [''s1-ise'' \<mapsto> ise, ''s1-ese'' \<mapsto> ese, ''s1-highest'' \<mapsto> highest,
      ''result1'' \<mapsto> [], ''prediction-1'' \<mapsto> []]"

text \<open>
  Two subjects and recorded grade points for the SGPA example, and the CGPA form of the
  CGPA example.
\<close>

definition sgpaSubjects :: "subject list" where
  "sgpaSubjects =
     [\<lparr>id_s = 1, credits = 4, fields_s = [], defaultHighest = 100\<rparr>,
      \<lparr>id_s = 2, credits = 3, fields_s = [], defaultHighest = 100\<rparr>]"

definition cgpaPage :: "string \<Rightarrow> string \<Rightarrow> string \<Rightarrow> string \<Rightarrow> document" where
  "cgpaPage sgpa1 credits1 sgpa2 credits2 =
     [''cgpaOutputSection'' \<mapsto> [],
      ''sgpa1'' \<mapsto> sgpa1, ''credits1'' \<mapsto> credits1,
      ''sgpa2'' \<mapsto> sgpa2, ''credits2'' \<mapsto> credits2]"

section \<open>Properties\<close>

lemma parseFloat_empty: "parseFloat rnd [] = NaN"
  by (simp add: parseFloat_def)

lemmas parse_eval = parseFloat_def is_digit_def is_space_def digit_val_def digits_val_def
  scale10_def Let_def

lemmas round_eval = round64_def scale.simps nearest_even_def exact_def

lemmas page_eval = getElementById_def inputId_def toString.simps

lemmas example_eval = exampleSubject_def exampleState_def examplePage_def

lemma semesters_list:
  "[1..<9] = [1, 2, 3, 4, 5, 6, 7, 8 :: nat]"
  "[Suc 0..<9] = [1, 2, 3, 4, 5, 6, 7, 8 :: nat]"
  by (simp_all add: upt_rec)

lemma sumFrom_simps:
  "sumFrom rnd a [] = a"
  "sumFrom rnd a (x # xs) = sumFrom rnd (rnd (a + x)) xs"
  by (simp_all add: sumFrom_def)

lemma sumFrom_exact: "sumFrom exact a xs = a + sum_list xs"
  by (induction xs arbitrary: a) (simp_all add: sumFrom_simps exact_def add.assoc)

subsection \<open>Grade scale\<close>

text \<open>
  C1. For every percentage \<open>p\<close>, getGradePoint is the lookup in the threshold table: 10
  from 80 up, 9 on [70, 80), 8 on [60, 70), 7 on [55, 60), 6 on [50, 55), 5 on [45, 50),
  4 on [40, 45) and 0 on [0, 40). Nothing is clamped: a percentage above 100 gives 10.
  The function has a value in \<open>{0, 4, \<dots>, 10}\<close> on every number, \<open>NaN\<close> included, and
  no error path; it is monotone; and it takes the four stated values at 80, 79.999,
  39.999 and 40.
\<close>

theorem getGradePoint_table:
  "(80 \<le> p \<longrightarrow> getGradePoint (Num p) = 10) \<and>
   (70 \<le> p \<and> p < 80 \<longrightarrow> getGradePoint (Num p) = 9) \<and>
   (60 \<le> p \<and> p < 70 \<longrightarrow> getGradePoint (Num p) = 8) \<and>
   (55 \<le> p \<and> p < 60 \<longrightarrow> getGradePoint (Num p) = 7) \<and>
   (50 \<le> p \<and> p < 55 \<longrightarrow> getGradePoint (Num p) = 6) \<and>
   (45 \<le> p \<and> p < 50 \<longrightarrow> getGradePoint (Num p) = 5) \<and>
   (40 \<le> p \<and> p < 45 \<longrightarrow> getGradePoint (Num p) = 4) \<and>
   (0 \<le> p \<and> p < 40 \<longrightarrow> getGradePoint (Num p) = 0) \<and>
   (100 < p \<longrightarrow> getGradePoint (Num p) = 10) \<and>
   getGradePoint x \<in> {0, 4, 5, 6, 7, 8, 9, 10} \<and>
   (js_le x y \<longrightarrow> getGradePoint x \<le> getGradePoint y) \<and>
   getGradePoint (Num 80) = 10 \<and>
   getGradePoint (Num 79.999) = 9 \<and>
   getGradePoint (Num 39.999) = 0 \<and>
   getGradePoint (Num 40) = 4"
proof -
  have range: "getGradePoint x \<in> {0, 4, 5, 6, 7, 8, 9, 10}"
    by (simp add: getGradePoint_def)
  have mono: "js_le x y \<longrightarrow> getGradePoint x \<le> getGradePoint y"
    by (cases x; cases y) (simp_all add: getGradePoint_def js_ge_def)
  show ?thesis
    using range mono by (simp add: getGradePoint_def js_ge_def)
qed

text \<open>The table at one percentage of each band, at 150, and monotonicity across the bound 80.\<close>

theorem getGradePoint_table_witness:
  "getGradePoint (Num 85) = 10 \<and> getGradePoint (Num 75) = 9 \<and> getGradePoint (Num 65) = 8 \<and>
   getGradePoint (Num 57) = 7 \<and> getGradePoint (Num 52) = 6 \<and> getGradePoint (Num 47) = 5 \<and>
   getGradePoint (Num 42) = 4 \<and> getGradePoint (Num 20) = 0 \<and> getGradePoint (Num 150) = 10 \<and>
   js_le (Num 79.999) (Num 80) \<and> getGradePoint (Num 79.999) \<le> getGradePoint (Num 80)"
  using getGradePoint_table [of 85] getGradePoint_table [of 75] getGradePoint_table [of 65]
    getGradePoint_table [of 57] getGradePoint_table [of 52] getGradePoint_table [of 47]
    getGradePoint_table [of 42] getGradePoint_table [of 20] getGradePoint_table [of 150]
    getGradePoint_table [of 0 "Num 79.999" "Num 80"]
  by simp

subsection \<open>Subject evaluator\<close>

lemma resolveHighest_Num:
  "resolveHighest rnd hv d =
     Num (case parseFloat rnd hv of NaN \<Rightarrow> d | Num x \<Rightarrow> if x = 0 then d else x)"
  by (cases "parseFloat rnd hv") (simp_all add: resolveHighest_def)

lemma sumFields_valid:
  "\<forall>f\<in>set fs. validMark rnd doc subjectId f \<Longrightarrow>
   sumFields rnd doc subjectId fs (Num a) =
     Normal (Num (sumFrom rnd a (map (markOf rnd doc subjectId) fs)), True)"
proof (induction fs arbitrary: a)
  case Nil
  then show ?case by (simp add: sumFrom_simps)
next
  case (Cons f fs)
  from Cons.prems obtain v x where v: "getElementById doc (inputId subjectId (name_f f)) = Some v"
    "v \<noteq> []" "parseFloat rnd v = Num x" "0 \<le> x" "x \<le> max_f f"
    by (auto simp: validMark_def split: option.splits jsnum.splits)
  have rest: "\<forall>f\<in>set fs. validMark rnd doc subjectId f" using Cons.prems by simp
  have "markOf rnd doc subjectId f = x" using v by (simp add: markOf_def)
  then show ?case using v Cons.IH [OF rest, of "rnd (a + x)"]
    by (simp add: js_gt_def sumFrom_simps)
qed

lemma sumFields_invalid:
  "\<forall>f\<in>set fs. getElementById doc (inputId subjectId (name_f f)) \<noteq> None \<Longrightarrow>
   \<exists>f\<in>set fs. invalidMark rnd doc subjectId f \<Longrightarrow>
   \<exists>t. sumFields rnd doc subjectId fs acc = Normal (t, False)"
proof (induction fs arbitrary: acc)
  case Nil
  then show ?case by simp
next
  case (Cons f fs)
  from Cons.prems(1) obtain v where v: "getElementById doc (inputId subjectId (name_f f)) = Some v"
    by auto
  show ?case
  proof (cases "invalidMark rnd doc subjectId f")
    case True
    then show ?thesis using v
      by (cases "parseFloat rnd v") (auto simp: invalidMark_def js_gt_def Let_def)
  next
    case False
    with Cons.prems(2) have ex: "\<exists>f\<in>set fs. invalidMark rnd doc subjectId f" by simp
    have pres: "\<forall>f\<in>set fs. getElementById doc (inputId subjectId (name_f f)) \<noteq> None"
      using Cons.prems(1) by simp
    from False v obtain x where x: "v \<noteq> []" "parseFloat rnd v = Num x" "0 \<le> x" "x \<le> max_f f"
      by (cases "parseFloat rnd v") (auto simp: invalidMark_def)
    show ?thesis using v x Cons.IH [OF pres ex, of "js_add rnd acc (Num x)"]
      by (simp add: js_gt_def)
  qed
qed

text \<open>
  C2. Take a current subject whose inputs are on the page, with every field's entered value
  present, numeric, non-negative and at most the field's maximum, and with a resolved
  denominator \<open>h\<close> that does not exceed \<open>defaultHighest\<close> (itself nonzero, as in the
  catalog). Then calculateSubject shows the total \<open>t\<close>, the sum of the entered values as
  the loop adds them, the percentage \<open>t / h * 100\<close> and the grade point of that
  percentage, and records this grade point under the subject's id in the store, where the
  aggregation reads it. This holds in the arithmetic of any rounding, binary64 included.
\<close>

theorem calculateSubject_result:
  assumes subj: "find (\<lambda>s. id_s s = subjectId) (currentSubjects st) = Some subj"
    and marks: "\<forall>f\<in>set (fields_s subj). validMark rnd doc subjectId f"
    and hv: "getElementById doc (inputId subjectId ''highest'') = Some hv"
    and h: "resolveHighest rnd hv (defaultHighest subj) = Num h"
    and le: "h \<le> defaultHighest subj"
    and nz: "defaultHighest subj \<noteq> 0"
    and res: "getElementById doc (''result'' @ toString subjectId) \<noteq> None"
    and t: "t = sumFrom rnd 0 (map (markOf rnd doc subjectId) (fields_s subj))"
    and p: "p = rnd (rnd (t / h) * 100)"
  shows "calculateSubject rnd st doc subjectId =
           (SubjectResult (Num t) (Num h) (Num p) (getGradePoint (Num p)),
            st\<lparr>gradePoints := (gradePoints st)(subjectId \<mapsto> getGradePoint (Num p))\<rparr>) \<and>
         gradePointOrZero (gradePoints (snd (calculateSubject rnd st doc subjectId))) subjectId =
           getGradePoint (Num p)"
proof -
  have sum: "sumFields rnd doc subjectId (fields_s subj) (Num 0) = Normal (Num t, True)"
    using sumFields_valid [OF marks, of 0] t by simp
  have hnz: "h \<noteq> 0"
    using h nz by (auto simp: resolveHighest_Num split: jsnum.splits if_splits)
  obtain r where r: "getElementById doc (''result'' @ toString subjectId) = Some r"
    using res by auto
  have run: "calculateSubject rnd st doc subjectId =
           (SubjectResult (Num t) (Num h) (Num p) (getGradePoint (Num p)),
            st\<lparr>gradePoints := (gradePoints st)(subjectId \<mapsto> getGradePoint (Num p))\<rparr>)"
    using subj sum hv h le hnz r p
    by (simp add: calculateSubject_def Let_def js_gt_def updateGradePoint_def)
  show ?thesis unfolding run by (simp add: gradePointOrZero_def)
qed

text \<open>
  In binary64: the example of the specification, ise 18 of 20, ese 65 of 80, default 100,
  no override, gives total 83, percentage 83, grade point 10; and the marks 1.4 and 0.7
  with the override 3 give the total 2.0999999999999996, the percentage 69.99999999999999
  and the grade point 8.
\<close>

theorem calculateSubject_result_witness:
  "calculateSubject round64 exampleState (examplePage ''18'' ''65'' '''') 1 =
     (SubjectResult (Num 83) (Num 100) (Num 83) 10,
      exampleState\<lparr>gradePoints := (gradePoints exampleState)(1 \<mapsto> 10)\<rparr>) \<and>
   calculateSubject round64 exampleState (examplePage ''1.4'' ''0.7'' ''3'') 1 =
     (SubjectResult (Num (1182194902184755 / 562949953421312)) (Num 3)
                    (Num (4925812092436479 / 70368744177664)) 8,
      exampleState\<lparr>gradePoints := (gradePoints exampleState)(1 \<mapsto> 8)\<rparr>)"
proof -
  have subj: "find (\<lambda>s. id_s s = 1) (currentSubjects exampleState) = Some exampleSubject"
    by (simp add: example_eval)
  have res: "getElementById (examplePage ise ese hv) (''result'' @ toString 1) \<noteq> None"
    for ise ese hv
    by (simp add: example_eval page_eval)
  have hv: "getElementById (examplePage ise ese hv) (inputId 1 ''highest'') = Some hv"
    for ise ese hv
    by (simp add: example_eval page_eval)
  have nz: "defaultHighest exampleSubject \<noteq> 0"
    by (simp add: example_eval)
  let ?a = "examplePage ''18'' ''65'' ''''"
  have marks_a: "\<forall>f\<in>set (fields_s exampleSubject). validMark round64 ?a 1 f"
    by (simp add: example_eval validMark_def page_eval parse_eval round_eval)
  have h_a: "resolveHighest round64 '''' (defaultHighest exampleSubject) = Num 100"
    by (simp add: example_eval resolveHighest_def parseFloat_empty)
  have t_a: "(83::real) = sumFrom round64 0 (map (markOf round64 ?a 1) (fields_s exampleSubject))"
    by (simp add: example_eval markOf_def page_eval parse_eval round_eval sumFrom_simps)
  have p_a: "(83::real) = round64 (round64 (83 / 100) * 100)"
    by (simp add: round_eval)
  have g_a: "getGradePoint (Num 83) = 10"
    by (simp add: getGradePoint_def js_ge_def)
  let ?b = "examplePage ''1.4'' ''0.7'' ''3''"
  let ?t = "1182194902184755 / 562949953421312 :: real"
  let ?p = "4925812092436479 / 70368744177664 :: real"
  have marks_b: "\<forall>f\<in>set (fields_s exampleSubject). validMark round64 ?b 1 f"
    by (simp add: example_eval validMark_def page_eval parse_eval round_eval)
  have h_b: "resolveHighest round64 ''3'' (defaultHighest exampleSubject) = Num 3"
    by (simp add: example_eval resolveHighest_def parse_eval round_eval)
  have t_b: "?t = sumFrom round64 0 (map (markOf round64 ?b 1) (fields_s exampleSubject))"
    by (simp add: example_eval markOf_def page_eval parse_eval round_eval sumFrom_simps)
  have p_b: "?p = round64 (round64 (?t / 3) * 100)"
    by (simp add: round_eval)
  have g_b: "getGradePoint (Num ?p) = 8"
    by (simp add: getGradePoint_def js_ge_def)
  show ?thesis
    using calculateSubject_result [OF subj marks_a hv h_a _ nz res t_a p_a]
      calculateSubject_result [OF subj marks_b hv h_b _ nz res t_b p_b] g_a g_b
    by (simp add: example_eval)
qed

text \<open>
  C3. Take a current subject whose inputs are on the page. If the entered value of any one
  field is empty, does not parse as a number, is negative or exceeds the field's maximum,
  calculateSubject answers with the fill-all-fields message alone (no total, no
  percentage) and records grade point 0 for the subject.
\<close>

theorem calculateSubject_invalid:
  assumes subj: "find (\<lambda>s. id_s s = subjectId) (currentSubjects st) = Some subj"
    and inputs: "\<forall>f\<in>set (fields_s subj). getElementById doc (inputId subjectId (name_f f)) \<noteq> None"
    and res: "getElementById doc (''result'' @ toString subjectId) \<noteq> None"
    and bad: "\<exists>f\<in>set (fields_s subj). invalidMark rnd doc subjectId f"
  shows "calculateSubject rnd st doc subjectId =
           (IncompleteOrInvalid, st\<lparr>gradePoints := (gradePoints st)(subjectId \<mapsto> 0)\<rparr>)"
proof -
  obtain t where "sumFields rnd doc subjectId (fields_s subj) (Num 0) = Normal (t, False)"
    using sumFields_invalid [OF inputs bad] by blast
  moreover obtain r where "getElementById doc (''result'' @ toString subjectId) = Some r"
    using res by auto
  ultimately show ?thesis
    using subj by (simp add: calculateSubject_def updateGradePoint_def)
qed

text \<open>The example of the specification: ise 18, ese left empty.\<close>

theorem calculateSubject_invalid_witness:
  "calculateSubject round64 exampleState (examplePage ''18'' '''' '''') 1 =
     (IncompleteOrInvalid, exampleState\<lparr>gradePoints := (gradePoints exampleState)(1 \<mapsto> 0)\<rparr>)"
proof -
  let ?doc = "examplePage ''18'' '''' ''''"
  have subj: "find (\<lambda>s. id_s s = 1) (currentSubjects exampleState) = Some exampleSubject"
    by (simp add: example_eval)
  have inputs: "\<forall>f\<in>set (fields_s exampleSubject). getElementById ?doc (inputId 1 (name_f f)) \<noteq> None"
    by (simp add: example_eval page_eval)
  have res: "getElementById ?doc (''result'' @ toString 1) \<noteq> None"
    by (simp add: example_eval page_eval)
  have bad: "\<exists>f\<in>set (fields_s exampleSubject). invalidMark round64 ?doc 1 f"
    by (simp add: example_eval invalidMark_def page_eval)
  show ?thesis
    using calculateSubject_invalid [OF subj inputs res bad] .
qed

text \<open>
  Whatever the marks being valid, an override above a positive \<open>defaultHighest\<close> is
  reported with the message that names \<open>defaultHighest\<close>, and grade point 0 is recorded.
\<close>

lemma calculateSubject_exceeds:
  assumes subj: "find (\<lambda>s. id_s s = subjectId) (currentSubjects st) = Some subj"
    and marks: "\<forall>f\<in>set (fields_s subj). validMark rnd doc subjectId f"
    and hv: "getElementById doc (inputId subjectId ''highest'') = Some hv"
    and pos: "0 < defaultHighest subj"
    and res: "getElementById doc (''result'' @ toString subjectId) \<noteq> None"
    and x: "parseFloat rnd hv = Num x" "defaultHighest subj < x"
  shows "calculateSubject rnd st doc subjectId =
           (HighestExceedsDefault (defaultHighest subj),
            st\<lparr>gradePoints := (gradePoints st)(subjectId \<mapsto> 0)\<rparr>)"
proof -
  have sum: "\<exists>t. sumFields rnd doc subjectId (fields_s subj) (Num 0) = Normal (Num t, True)"
    using sumFields_valid [OF marks, of 0] by simp
  obtain r where r: "getElementById doc (''result'' @ toString subjectId) = Some r"
    using res by auto
  show ?thesis
    using subj sum hv r pos x
    by (auto simp: calculateSubject_def Let_def js_gt_def updateGradePoint_def resolveHighest_Num)
qed

text \<open>
  C4. A negative override is neither rejected nor replaced by the default: the fallback
  tests the override for \<open>NaN\<close> and 0 only, and the check that follows is the upper bound
  alone. In binary64, with the marks 18 and 65, the default 100 and the override
  \<^verbatim>\<open>-50\<close>, calculateSubject divides by \<open>-50\<close> and shows the percentage \<open>-166\<close> with
  grade point 0, where the claim, for an override outside \<open>0 < override \<le> defaultHighest\<close>,
  gives the denominator 100.
\<close>

theorem calculateSubject_negative_highest:
  "calculateSubject round64 exampleState (examplePage ''18'' ''65'' ''-50'') 1 =
     (SubjectResult (Num 83) (Num (- 50)) (Num (- 166)) 0,
      exampleState\<lparr>gradePoints := (gradePoints exampleState)(1 \<mapsto> 0)\<rparr>) \<and>
   resolveHighest_claimed round64 ''-50'' (defaultHighest exampleSubject) = 100"
  by (simp add: calculateSubject_def example_eval page_eval parse_eval round_eval
      resolveHighest_def resolveHighest_claimed_def js_gt_def js_ge_def getGradePoint_def
      updateGradePoint_def)

subsection \<open>Exam-score predictor\<close>

lemma sumNonEse_eq:
  "sumNonEse rnd doc subjectId fs (Num a, anyFilled) =
     (Num (sumFrom rnd a (numbersOf rnd doc subjectId (nonFinal fs))),
      anyFilled \<or> (\<exists>f\<in>set (nonFinal fs). filled doc subjectId f))"
proof (induction fs arbitrary: a anyFilled)
  case Nil
  then show ?case by (simp add: nonFinal_def numbersOf_def sumFrom_simps)
next
  case (Cons f fs)
  note defs = nonFinal_def numbersOf_def numberOf_def filled_def sumFrom_simps
  show ?case
  proof (cases "name_f f = ''ese''")
    case True
    then show ?thesis using Cons.IH [of a anyFilled] by (simp add: defs)
  next
    case False
    show ?thesis
    proof (cases "getElementById doc (inputId subjectId (name_f f))")
      case None
      then show ?thesis using False Cons.IH [of a anyFilled]
        by (simp add: defs)
    next
      case (Some v)
      show ?thesis
      proof (cases "v = []")
        case True
        then show ?thesis using False Some Cons.IH [of a anyFilled]
          by (simp add: defs parseFloat_empty)
      next
        case nonempty: False
        show ?thesis
        proof (cases "parseFloat rnd v")
          case NaN
          then show ?thesis using False Some nonempty Cons.IH [of a True]
            by (simp add: defs)
        next
          case (Num x)
          then show ?thesis using False Some nonempty Cons.IH [of "rnd (a + x)" True]
            by (simp add: defs)
        qed
      qed
    qed
  qed
qed

lemma verdictFor_verdictOf:
  "0 \<le> eseMax \<Longrightarrow> verdictFor need eseMax = verdictOf need eseMax"
  by (cases need) (auto simp: verdictFor_def verdictOf_def)

text \<open>
  The claim C8 as stated fails on a mark out of range and on an override above the
  default. In binary64, with 25 entered for the ISE of 20 and the override 120 (default
  100), the hint asks for 71 and 59, from a current total of 25 and a denominator of 120;
  the claim counts the invalid mark as 0 and falls back to the denominator 100, which gives
  80 and 70.
\<close>

theorem updatePrediction_prediction_counterexample:
  "updatePrediction round64 exampleState (examplePage ''25'' '''' ''120'') 1 =
     Prediction (Need (Num 71) 80) (Need (Num 59) 80) \<and>
   prediction_claimed round64 (examplePage ''25'' '''' ''120'') exampleSubject 80 ''120'' =
     Prediction (Need (Num 80) 80) (Need (Num 70) 80)"
proof -
  let ?doc = "examplePage ''25'' '''' ''120''"
  have code: "updatePrediction round64 exampleState ?doc 1 =
      Prediction (Need (Num 71) 80) (Need (Num 59) 80)"
    by (simp add: updatePrediction_def resolveHighest_def verdictFor_def
        example_eval page_eval parse_eval round_eval)
  have total_c: "sumFrom round64 0 (map (validMarkOrZero round64 ?doc 1)
      (nonFinal (fields_s exampleSubject))) = 0"
    by (simp add: nonFinal_def validMark_def validMarkOrZero_def sumFrom_simps
        example_eval page_eval parse_eval round_eval)
  have highest_c: "resolveHighest_claimed round64 ''120'' (defaultHighest exampleSubject) = 100"
    by (simp add: resolveHighest_claimed_def example_eval parse_eval round_eval)
  have needed: "neededFor round64 (8 / 10) 100 0 = Num 80"
    "neededFor round64 (7 / 10) 100 0 = Num 70"
    by (simp_all add: neededFor_def round_eval)
  have id1: "id_s exampleSubject = 1"
    by (simp add: example_eval)
  have claimed: "prediction_claimed round64 ?doc exampleSubject 80 ''120'' =
      Prediction (Need (Num 80) 80) (Need (Num 70) 80)"
    unfolding prediction_claimed_def id1 total_c highest_c Let_def needed
    by (simp add: verdictOf_def)
  from code claimed show ?thesis by (rule conjI)
qed

text \<open>
  C8, amended. Whenever updatePrediction shows a prediction, the current total is the
  running sum of the values of the non-final fields that parse as numbers, whatever their
  range (an empty or non-numeric one adds nothing and stops nothing); the denominator is
  the override when it is numeric and above 0, whatever its size, and \<open>defaultHighest\<close>
  when the override is empty, not numeric or 0, with no failure (a negative override is
  left aside); the scores needed are the ceilings of
  \<open>0.8 \<cdot> highest - currentTotal\<close> and \<open>0.7 \<cdot> highest - currentTotal\<close> as the program's
  arithmetic computes them; and for a final field whose maximum is not negative, the
  verdict for 10 and then the verdict for 9, always both, are: already secured when the
  needed score is at most 0, the needed score when it is at most the final field's
  maximum, and not possible otherwise. This holds in the arithmetic of any rounding,
  binary64 included.
\<close>

theorem updatePrediction_prediction:
  assumes subj: "find (\<lambda>s. id_s s = subjectId) (currentSubjects st) = Some subj"
    and ese: "find (\<lambda>f. name_f f = ''ese'') (fields_s subj) = Some eseField"
    and out: "updatePrediction rnd st doc subjectId = Prediction v10 v9"
    and emax: "0 \<le> max_f eseField"
    and hv: "getElementById doc (inputId subjectId ''highest'') = Some hv"
    and nonneg: "\<not> js_lt (parseFloat rnd hv) (Num 0)"
    and ct: "currentTotal = sumFrom rnd 0 (numbersOf rnd doc subjectId (nonFinal (fields_s subj)))"
    and h: "highest = (case parseFloat rnd hv of
                         NaN \<Rightarrow> defaultHighest subj
                       | Num x \<Rightarrow> if x = 0 then defaultHighest subj else x)"
  shows "v10 = verdictOf (neededFor rnd (8 / 10) highest currentTotal) (max_f eseField) \<and>
         v9 = verdictOf (neededFor rnd (7 / 10) highest currentTotal) (max_f eseField)"
proof -
  have loop: "sumNonEse rnd doc subjectId (fields_s subj) (Num 0, False) =
      (Num currentTotal, \<exists>f\<in>set (nonFinal (fields_s subj)). filled doc subjectId f)"
    using sumNonEse_eq [of rnd doc subjectId "fields_s subj" 0 False] ct by simp
  have resolved: "resolveHighest rnd hv (defaultHighest subj) = Num highest"
    unfolding h by (rule resolveHighest_Num)
  from out subj ese loop hv resolved
  have "Prediction (verdictFor (neededFor rnd (8 / 10) highest currentTotal) (max_f eseField))
                   (verdictFor (neededFor rnd (7 / 10) highest currentTotal) (max_f eseField)) =
        Prediction v10 v9"
    by (auto simp: updatePrediction_def neededFor_def Let_def split: option.splits if_splits)
  then show ?thesis
    using emax by (simp add: verdictFor_verdictOf)
qed

text \<open>
  In binary64: the example of the specification, 15 entered for the ISE, default 100, no
  override, needs 65 for 10 and 55 for 9, both within the ESE of 80; and 0.4 entered with
  the override 3 needs 3 for 10, the ceiling of 2.0000000000000004, and 2 for 9.
\<close>

theorem updatePrediction_prediction_witness:
  "updatePrediction round64 exampleState (examplePage ''15'' '''' '''') 1 =
     Prediction (Need (Num 65) 80) (Need (Num 55) 80) \<and>
   updatePrediction round64 exampleState (examplePage ''0.4'' '''' ''3'') 1 =
     Prediction (Need (Num 3) 80) (Need (Num 2) 80) \<and>
   round64 (round64 (round64 (8 / 10) * 3) - round64 (4 / 10)) =
     4503599627370497 / 2251799813685248"
proof -
  have subj: "find (\<lambda>s. id_s s = 1) (currentSubjects exampleState) = Some exampleSubject"
    by (simp add: example_eval)
  have ese: "find (\<lambda>f. name_f f = ''ese'') (fields_s exampleSubject) =
      Some \<lparr>name_f = ''ese'', max_f = 80\<rparr>"
    by (simp add: example_eval)
  have emax: "0 \<le> max_f \<lparr>name_f = ''ese'', max_f = 80\<rparr>" by simp
  have hv: "getElementById (examplePage ise e hv) (inputId 1 ''highest'') = Some hv" for ise e hv
    by (simp add: example_eval page_eval)
  note run = updatePrediction_def resolveHighest_def verdictFor_def
    example_eval page_eval parse_eval round_eval
  let ?a = "examplePage ''15'' '''' ''''"
  have out_a: "updatePrediction round64 exampleState ?a 1 =
      Prediction (Need (Num 65) 80) (Need (Num 55) 80)"
    by (simp add: run)
  have ct_a: "(15::real) =
      sumFrom round64 0 (numbersOf round64 ?a 1 (nonFinal (fields_s exampleSubject)))"
    by (simp add: nonFinal_def numbersOf_def numberOf_def List.map_filter_simps sumFrom_simps
        example_eval page_eval parse_eval round_eval)
  have h_a: "(100::real) = (case parseFloat round64 '''' of
                         NaN \<Rightarrow> defaultHighest exampleSubject
                       | Num x \<Rightarrow> if x = 0 then defaultHighest exampleSubject else x)"
    by (simp add: parseFloat_empty example_eval)
  let ?b = "examplePage ''0.4'' '''' ''3''"
  have out_b: "updatePrediction round64 exampleState ?b 1 =
      Prediction (Need (Num 3) 80) (Need (Num 2) 80)"
    by (simp add: run)
  have ct_b: "round64 (4 / 10) =
      sumFrom round64 0 (numbersOf round64 ?b 1 (nonFinal (fields_s exampleSubject)))"
    by (simp add: nonFinal_def numbersOf_def numberOf_def List.map_filter_simps sumFrom_simps
        example_eval page_eval parse_eval round_eval)
  have h_b: "(3::real) = (case parseFloat round64 ''3'' of
                         NaN \<Rightarrow> defaultHighest exampleSubject
                       | Num x \<Rightarrow> if x = 0 then defaultHighest exampleSubject else x)"
    by (simp add: example_eval parse_eval round_eval)
  have need: "round64 (round64 (round64 (8 / 10) * 3) - round64 (4 / 10)) =
     4503599627370497 / 2251799813685248"
    by (simp add: round_eval)
  have nonneg_a: "\<not> js_lt (parseFloat round64 '''') (Num 0)"
    by (simp add: parseFloat_empty)
  have nonneg_b: "\<not> js_lt (parseFloat round64 ''3'') (Num 0)"
    by (simp add: parse_eval round_eval)
  show ?thesis
    using out_a out_b need
      updatePrediction_prediction [OF subj ese out_a emax hv nonneg_a ct_a h_a]
      updatePrediction_prediction [OF subj ese out_b emax hv nonneg_b ct_b h_b]
    by simp
qed

text \<open>
  C9. For a current subject whose card is on the page, updatePrediction shows no
  prediction (it returns at once, or empties the hint) exactly when the subject has no
  field named \<^verbatim>\<open>ese\<close>, or the ESE input holds a value, or no other field's input holds
  one; in every other case it shows a prediction.
\<close>

theorem updatePrediction_empty:
  assumes subj: "find (\<lambda>s. id_s s = subjectId) (currentSubjects st) = Some subj"
    and page: "find (\<lambda>f. name_f f = ''ese'') (fields_s subj) = None \<or> predictionPage doc subjectId"
  shows "((updatePrediction rnd st doc subjectId \<in> {PredNoEse, PredCleared}) =
           (find (\<lambda>f. name_f f = ''ese'') (fields_s subj) = None \<or>
            (\<exists>v. getElementById doc (inputId subjectId ''ese'') = Some v \<and> v \<noteq> []) \<or>
            (\<forall>f\<in>set (nonFinal (fields_s subj)). \<not> filled doc subjectId f))) \<and>
         (updatePrediction rnd st doc subjectId \<in> {PredNoEse, PredCleared} \<or>
          (\<exists>v10 v9. updatePrediction rnd st doc subjectId = Prediction v10 v9))"
proof -
  have loop: "sumNonEse rnd doc subjectId (fields_s subj) (Num 0, False) =
      (Num (sumFrom rnd 0 (numbersOf rnd doc subjectId (nonFinal (fields_s subj)))),
       \<exists>f\<in>set (nonFinal (fields_s subj)). filled doc subjectId f)"
    using sumNonEse_eq [of rnd doc subjectId "fields_s subj" 0 False] by simp
  have cond: "(updatePrediction rnd st doc subjectId \<in> {PredNoEse, PredCleared}) =
           (find (\<lambda>f. name_f f = ''ese'') (fields_s subj) = None \<or>
            (\<exists>v. getElementById doc (inputId subjectId ''ese'') = Some v \<and> v \<noteq> []) \<or>
            (\<forall>f\<in>set (nonFinal (fields_s subj)). \<not> filled doc subjectId f))"
    using subj page loop
    by (auto simp: updatePrediction_def predictionPage_def Let_def split: option.splits)
  have other: "updatePrediction rnd st doc subjectId \<in> {PredNoEse, PredCleared} \<or>
         (\<exists>v10 v9. updatePrediction rnd st doc subjectId = Prediction v10 v9)"
    using subj page loop
    by (auto simp: updatePrediction_def predictionPage_def Let_def split: option.splits)
  show ?thesis using cond other by blast
qed

text \<open>
  With 15 entered for the ISE alone there is a prediction; with the ESE entered as well,
  or with nothing entered, there is none.
\<close>

theorem updatePrediction_empty_witness:
  "updatePrediction round64 exampleState (examplePage ''15'' '''' '''') 1
     \<notin> {PredNoEse, PredCleared} \<and>
   updatePrediction round64 exampleState (examplePage ''15'' ''60'' '''') 1
     \<in> {PredNoEse, PredCleared} \<and>
   updatePrediction round64 exampleState (examplePage '''' '''' '''') 1
     \<in> {PredNoEse, PredCleared}"
proof -
  have subj: "find (\<lambda>s. id_s s = 1) (currentSubjects exampleState) = Some exampleSubject"
    by (simp add: example_eval)
  have page: "find (\<lambda>f. name_f f = ''ese'') (fields_s exampleSubject) = None \<or>
      predictionPage (examplePage ise ese hv) 1" for ise ese hv
    by (simp add: predictionPage_def example_eval page_eval)
  have ese: "find (\<lambda>f. name_f f = ''ese'') (fields_s exampleSubject) \<noteq> None"
    by (simp add: example_eval)
  have eseInput: "getElementById (examplePage ise ese hv) (inputId 1 ''ese'') = Some ese" for ise ese hv
    by (simp add: example_eval page_eval)
  have others: "(\<forall>f\<in>set (nonFinal (fields_s exampleSubject)).
                  \<not> filled (examplePage ise ese hv) 1 f) = (ise = [])" for ise ese hv
    by (simp add: nonFinal_def filled_def example_eval page_eval)
  show ?thesis
    using updatePrediction_empty [OF subj page, of round64 "''15''" "''''" "''''"]
      updatePrediction_empty [OF subj page, of round64 "''15''" "''60''" "''''"]
      updatePrediction_empty [OF subj page, of round64 "''''" "''''" "''''"]
      ese eseInput others
    by simp
qed

subsection \<open>SGPA aggregator\<close>

lemma sumCredits_eq:
  "sumCredits rnd gps subjects (Num a, Num b) =
     (Num (sumFrom rnd a (creditPoints rnd gps subjects)),
      Num (sumFrom rnd b (map credits subjects)))"
  by (induction subjects arbitrary: a b) (simp_all add: Let_def creditPoints_def sumFrom_simps)

lemma aggregateSGPA_eq:
  "aggregateSGPA rnd subjects gps =
     js_div rnd (Num (sumFrom rnd 0 (creditPoints rnd gps subjects)))
                (Num (sumFrom rnd 0 (map credits subjects)))"
  using sumCredits_eq [of rnd gps subjects 0 0] by (simp add: aggregateSGPA_def)

lemma aggregateSGPA_exact:
  "aggregateSGPA exact subjects gps =
     js_div exact (Num (\<Sum>s\<leftarrow>subjects. real (gradePointOrZero gps (id_s s)) * credits s))
                  (Num (\<Sum>s\<leftarrow>subjects. credits s))"
  by (simp add: aggregateSGPA_eq sumFrom_exact creditPoints_def exact_def)

text \<open>
  C5. The aggregation of calculateOverallSGPA divides the sum of grade point times
  credits by the sum of the credits, over all current subjects, the sums and the quotient
  being those of the program's arithmetic, whatever the rounding; with no rounding, it is
  the quotient of the two sums whenever the sum of credits is not 0; a subject with no
  recorded grade point counts with grade point 0 and with its credits; for the empty list
  of subjects the result is \<open>NaN\<close>; and the SGPA that calculateOverallSGPA shows is this
  aggregate of the grade points in the store it leaves.
\<close>

theorem calculateOverallSGPA_formula:
  "aggregateSGPA rnd subjects gps =
     js_div rnd (Num (sumFrom rnd 0 (creditPoints rnd gps subjects)))
                (Num (sumFrom rnd 0 (map credits subjects))) \<and>
   ((\<Sum>s\<leftarrow>subjects. credits s) \<noteq> 0 \<longrightarrow>
      aggregateSGPA exact subjects gps =
        Num ((\<Sum>s\<leftarrow>subjects. real (gradePointOrZero gps (id_s s)) * credits s) /
             (\<Sum>s\<leftarrow>subjects. credits s))) \<and>
   (gps subjectId = None \<longrightarrow> gradePointOrZero gps subjectId = 0) \<and>
   (gps subjectId = Some gp \<longrightarrow> gradePointOrZero gps subjectId = gp) \<and>
   aggregateSGPA rnd [] gps = NaN \<and>
   (calculateOverallSGPA rnd st doc = (SGPA sgpa, st') \<longrightarrow>
      sgpa = aggregateSGPA rnd (currentSubjects st) (gradePoints st'))"
proof -
  have run: "calculateOverallSGPA rnd st doc = (SGPA sgpa, st') \<longrightarrow>
      sgpa = aggregateSGPA rnd (currentSubjects st) (gradePoints st')"
    by (auto simp: calculateOverallSGPA_def Let_def
        split: completion.splits if_splits option.splits prod.splits bool.splits)
  have plain: "(\<Sum>s\<leftarrow>subjects. credits s) \<noteq> 0 \<longrightarrow>
      aggregateSGPA exact subjects gps =
        Num ((\<Sum>s\<leftarrow>subjects. real (gradePointOrZero gps (id_s s)) * credits s) /
             (\<Sum>s\<leftarrow>subjects. credits s))"
    by (simp add: aggregateSGPA_exact exact_def)
  have empty: "aggregateSGPA rnd [] gps = NaN"
    by (simp add: aggregateSGPA_eq creditPoints_def sumFrom_simps)
  have dflt: "gps subjectId = None \<longrightarrow> gradePointOrZero gps subjectId = 0"
    "gps subjectId = Some gp \<longrightarrow> gradePointOrZero gps subjectId = gp"
    by (simp_all add: gradePointOrZero_def)
  show ?thesis
    using aggregateSGPA_eq [of rnd subjects gps] plain dflt empty run by blast
qed

text \<open>
  The example of the specification, grade points 10 and 8 with credits 4 and 3, gives
  64/7, in binary64 9.142857142857142; with the second subject not evaluated, 40/7; and a
  run of calculateOverallSGPA on the example subject.
\<close>

theorem calculateOverallSGPA_formula_witness:
  "aggregateSGPA round64 sgpaSubjects [1 \<mapsto> 10, 2 \<mapsto> 8] =
     Num (2573485501354569 / 281474976710656) \<and>
   aggregateSGPA exact sgpaSubjects [1 \<mapsto> 10, 2 \<mapsto> 8] = Num (64 / 7) \<and>
   aggregateSGPA exact sgpaSubjects [1 \<mapsto> 10] = Num (40 / 7) \<and>
   calculateOverallSGPA round64 exampleState
     ((examplePage ''18'' ''65'' '''')(''outputSection'' \<mapsto> [], ''printContainer'' \<mapsto> [])) =
     (SGPA (Num 10), exampleState\<lparr>gradePoints := [1 \<mapsto> 10]\<rparr>) \<and>
   Num 10 = aggregateSGPA round64 (currentSubjects exampleState) [1 \<mapsto> 10]"
proof -
  let ?doc = "(examplePage ''18'' ''65'' '''')(''outputSection'' \<mapsto> [], ''printContainer'' \<mapsto> [])"
  let ?st = "exampleState\<lparr>gradePoints := [1 \<mapsto> 10]\<rparr>"
  have run: "calculateOverallSGPA round64 exampleState ?doc = (SGPA (Num 10), ?st)"
    by (simp add: calculateOverallSGPA_def aggregateSGPA_def gradePointOrZero_def
        calculateSubject_def resolveHighest_def js_gt_def js_ge_def getGradePoint_def
        updateGradePoint_def example_eval page_eval parse_eval round_eval)
  have credits: "(\<Sum>s\<leftarrow>sgpaSubjects. credits s) \<noteq> 0"
    by (simp add: sgpaSubjects_def)
  let ?gps = "[1 \<mapsto> 10, 2 \<mapsto> 8] :: nat \<rightharpoonup> nat"
  have "aggregateSGPA round64 sgpaSubjects ?gps =
      js_div round64 (Num (sumFrom round64 0 (creditPoints round64 ?gps sgpaSubjects)))
                     (Num (sumFrom round64 0 (map credits sgpaSubjects)))"
    using calculateOverallSGPA_formula [of round64 sgpaSubjects ?gps 1 10] by blast
  then have a: "aggregateSGPA round64 sgpaSubjects ?gps =
      Num (2573485501354569 / 281474976710656)"
    by (simp add: sgpaSubjects_def creditPoints_def gradePointOrZero_def sumFrom_simps
        round_eval)
  have "aggregateSGPA exact sgpaSubjects ?gps =
      Num ((\<Sum>s\<leftarrow>sgpaSubjects. real (gradePointOrZero ?gps (id_s s)) * credits s) /
           (\<Sum>s\<leftarrow>sgpaSubjects. credits s))"
    using calculateOverallSGPA_formula [of exact sgpaSubjects ?gps 1 10] credits by blast
  then have b: "aggregateSGPA exact sgpaSubjects ?gps = Num (64 / 7)"
    by (simp add: sgpaSubjects_def gradePointOrZero_def)
  have "aggregateSGPA exact sgpaSubjects [1 \<mapsto> 10] =
      Num ((\<Sum>s\<leftarrow>sgpaSubjects. real (gradePointOrZero [1 \<mapsto> 10] (id_s s)) * credits s) /
           (\<Sum>s\<leftarrow>sgpaSubjects. credits s))"
    using calculateOverallSGPA_formula [of exact sgpaSubjects "[1 \<mapsto> 10]" 2] credits by blast
  then have c: "aggregateSGPA exact sgpaSubjects [1 \<mapsto> 10] = Num (40 / 7)"
    by (simp add: sgpaSubjects_def gradePointOrZero_def)
  have d: "Num 10 = aggregateSGPA round64 (currentSubjects exampleState) [1 \<mapsto> 10]"
    using calculateOverallSGPA_formula [of round64 "[]" "[1 \<mapsto> 10]" 1 10 exampleState ?doc
        "Num 10" ?st] run
    by simp
  show ?thesis using a b c run d by blast
qed

subsection \<open>CGPA aggregator\<close>

lemma rowCounts_iff:
  "rowCounts rnd doc sem =
     (\<exists>sv cv s c. getElementById doc (''sgpa'' @ toString sem) = Some sv \<and>
                  getElementById doc (''credits'' @ toString sem) = Some cv \<and>
                  parseFloat rnd sv = Num s \<and> parseFloat rnd cv = Num c \<and> 0 < s \<and> 0 < c)"
proof (cases "getElementById doc (''sgpa'' @ toString sem)")
  case None
  then show ?thesis by (simp add: rowCounts_def semesterRow_def)
next
  case sv: (Some sv)
  show ?thesis
  proof (cases "getElementById doc (''credits'' @ toString sem)")
    case None
    then show ?thesis using sv by (simp add: rowCounts_def semesterRow_def)
  next
    case cv: (Some cv)
    show ?thesis using sv cv
      by (cases "parseFloat rnd sv"; cases "parseFloat rnd cv")
         (simp_all add: rowCounts_def semesterRow_def js_gt_def)
  qed
qed

lemma row_values:
  assumes "getElementById doc (''sgpa'' @ toString sem) = Some sv"
    and "getElementById doc (''credits'' @ toString sem) = Some cv"
    and "parseFloat rnd sv = Num s" and "parseFloat rnd cv = Num c"
  shows "rowSgpa rnd doc sem = s" and "rowCredits rnd doc sem = c"
  using assms by (simp_all add: rowSgpa_def rowCredits_def semesterRow_def)

text \<open>A row that does not pass the filter is skipped, whatever it holds.\<close>

lemma cgpaLoop_skip:
  assumes no: "\<not> rowCounts rnd doc sem"
  shows "cgpaLoop rnd doc (sem # rest) (tcp, tc, n) = cgpaLoop rnd doc rest (tcp, tc, n)"
proof (cases "getElementById doc (''sgpa'' @ toString sem)")
  case None
  then show ?thesis by simp
next
  case sv: (Some sv)
  show ?thesis
  proof (cases "getElementById doc (''credits'' @ toString sem)")
    case None
    then show ?thesis using sv by simp
  next
    case cv: (Some cv)
    show ?thesis using sv cv no
      by (cases "parseFloat rnd sv"; cases "parseFloat rnd cv")
         (auto simp: rowCounts_def semesterRow_def js_gt_def Let_def)
  qed
qed

lemma cgpaLoop_sums:
  "\<forall>sem\<in>set sems. rowCounts rnd doc sem \<longrightarrow> rowSgpa rnd doc sem \<le> 10 \<Longrightarrow>
   cgpaLoop rnd doc sems (Num a, Num b, n) =
     Inr (Num (sumFrom rnd a (map (\<lambda>sem. rnd (rowSgpa rnd doc sem * rowCredits rnd doc sem))
                                  (filter (rowCounts rnd doc) sems))),
          Num (sumFrom rnd b (map (rowCredits rnd doc) (filter (rowCounts rnd doc) sems))),
          n + length (filter (rowCounts rnd doc) sems))"
proof (induction sems arbitrary: a b n)
  case Nil
  then show ?case by (simp add: sumFrom_simps)
next
  case (Cons sem sems)
  have rest: "\<forall>s\<in>set sems. rowCounts rnd doc s \<longrightarrow> rowSgpa rnd doc s \<le> 10"
    using Cons.prems by simp
  show ?case
  proof (cases "rowCounts rnd doc sem")
    case True
    then obtain sv cv s c where row:
      "getElementById doc (''sgpa'' @ toString sem) = Some sv"
      "getElementById doc (''credits'' @ toString sem) = Some cv"
      "parseFloat rnd sv = Num s" "parseFloat rnd cv = Num c" "0 < s" "0 < c"
      unfolding rowCounts_iff by blast
    have vals: "rowSgpa rnd doc sem = s" "rowCredits rnd doc sem = c"
      using row by (simp_all add: row_values)
    have "s \<le> 10" using Cons.prems True vals by simp
    then show ?thesis
      using True row vals Cons.IH [OF rest, of "rnd (a + rnd (s * c))" "rnd (b + c)" "Suc n"]
      by (simp add: js_gt_def sumFrom_simps)
  next
    case False
    then show ?thesis
      using Cons.IH [OF rest, of a b n]
      by (simp add: cgpaLoop_skip del: cgpaLoop.simps)
  qed
qed

lemma cgpaLoop_out_of_range:
  "\<forall>s\<in>set before. rowCounts rnd doc s \<longrightarrow> rowSgpa rnd doc s \<le> 10 \<Longrightarrow>
   rowCounts rnd doc sem \<Longrightarrow> 10 < rowSgpa rnd doc sem \<Longrightarrow>
   cgpaLoop rnd doc (before @ sem # after) (Num a, Num b, n) = Inl sem"
proof (induction before arbitrary: a b n)
  case Nil
  from Nil.prems(2) obtain sv cv s c where row:
    "getElementById doc (''sgpa'' @ toString sem) = Some sv"
    "getElementById doc (''credits'' @ toString sem) = Some cv"
    "parseFloat rnd sv = Num s" "parseFloat rnd cv = Num c" "0 < s" "0 < c"
    unfolding rowCounts_iff by blast
  have "rowSgpa rnd doc sem = s"
    using row by (simp add: row_values)
  then show ?case using row Nil.prems(3) by (simp add: js_gt_def)
next
  case (Cons x before)
  have rest: "\<forall>s\<in>set before. rowCounts rnd doc s \<longrightarrow> rowSgpa rnd doc s \<le> 10"
    using Cons.prems(1) by simp
  show ?case
  proof (cases "rowCounts rnd doc x")
    case True
    then obtain sv cv s c where row:
      "getElementById doc (''sgpa'' @ toString x) = Some sv"
      "getElementById doc (''credits'' @ toString x) = Some cv"
      "parseFloat rnd sv = Num s" "parseFloat rnd cv = Num c" "0 < s" "0 < c"
      unfolding rowCounts_iff by blast
    have "rowSgpa rnd doc x = s"
      using row by (simp add: row_values)
    then have "s \<le> 10" using Cons.prems(1) True by simp
    then show ?thesis
      using row
        Cons.IH [OF rest Cons.prems(2,3), of "rnd (a + rnd (s * c))" "rnd (b + c)" "Suc n"]
      by (simp add: js_gt_def)
  next
    case False
    then show ?thesis
      using Cons.IH [OF rest Cons.prems(2,3), of a b n]
      by (simp add: cgpaLoop_skip del: cgpaLoop.simps)
  qed
qed


lemma cgpaLoop_totals:
  assumes "\<forall>sem\<in>set (counted rnd doc). rowSgpa rnd doc sem \<le> 10"
  shows "cgpaLoop rnd doc [1..<9] (Num 0, Num 0, 0) =
      Inr (Num (totalCreditPointsOf rnd doc), Num (totalCreditsOf rnd doc),
           length (counted rnd doc))"
proof -
  have all: "\<forall>sem\<in>set [1..<9]. rowCounts rnd doc sem \<longrightarrow> rowSgpa rnd doc sem \<le> 10"
    using assms by (simp add: counted_def)
  show ?thesis
    using cgpaLoop_sums [OF all, of 0 0 0]
    by (simp add: counted_def totalCreditPointsOf_def totalCreditsOf_def)
qed

lemma totals_exact:
  "totalCreditPointsOf exact doc =
     (\<Sum>sem\<leftarrow>counted exact doc. rowSgpa exact doc sem * rowCredits exact doc sem)"
  "totalCreditsOf exact doc = (\<Sum>sem\<leftarrow>counted exact doc. rowCredits exact doc sem)"
  by (simp_all add: totalCreditPointsOf_def totalCreditsOf_def sumFrom_exact exact_def)

lemma counted_sums:
  assumes "sems \<noteq> []"
    and "\<forall>sem\<in>set sems. rowCounts rnd doc sem \<and> rowSgpa rnd doc sem \<le> 10"
  shows "0 < (\<Sum>sem\<leftarrow>sems. rowCredits rnd doc sem) \<and>
         0 < (\<Sum>sem\<leftarrow>sems. rowSgpa rnd doc sem * rowCredits rnd doc sem) \<and>
         (\<Sum>sem\<leftarrow>sems. rowSgpa rnd doc sem * rowCredits rnd doc sem) \<le>
           10 * (\<Sum>sem\<leftarrow>sems. rowCredits rnd doc sem)"
  using assms
proof (induction sems)
  case Nil
  then show ?case by simp
next
  case (Cons sem sems)
  have pos: "0 < rowSgpa rnd doc sem" "0 < rowCredits rnd doc sem"
    using Cons.prems(2)
    unfolding rowCounts_iff using row_values [of doc sem] by auto
  have le: "rowSgpa rnd doc sem \<le> 10" using Cons.prems(2) by simp
  have prod: "0 < rowSgpa rnd doc sem * rowCredits rnd doc sem"
    "rowSgpa rnd doc sem * rowCredits rnd doc sem \<le> 10 * rowCredits rnd doc sem"
    using pos le by simp_all
  show ?case
  proof (cases "sems = []")
    case True
    then show ?thesis using pos prod by simp
  next
    case False
    then show ?thesis using Cons.IH Cons.prems(2) pos prod by fastforce
  qed
qed

lemmas row_eval = rowCounts_def rowSgpa_def rowCredits_def semesterRow_def cgpaPage_def

lemma cgpa_example_counted:
  "counted round64 (cgpaPage ''9.14'' ''22'' ''8.5'' ''20'') = [1, 2]"
  "counted exact (cgpaPage ''9.14'' ''22'' ''8.5'' ''20'') = [1, 2]"
  "counted round64 (cgpaPage '''' '''' ''0'' ''0'') = []"
  by (simp_all add: counted_def row_eval semesters_list page_eval parse_eval round_eval
      js_gt_def)

lemma cgpa_example_rows:
  "rowSgpa round64 (cgpaPage ''9.14'' ''22'' ''8.5'' ''20'') (Suc 0) =
     643170321783849 / 70368744177664"
  "rowCredits round64 (cgpaPage ''9.14'' ''22'' ''8.5'' ''20'') (Suc 0) = 22"
  "rowSgpa round64 (cgpaPage ''9.14'' ''22'' ''8.5'' ''20'') 2 = 17 / 2"
  "rowCredits round64 (cgpaPage ''9.14'' ''22'' ''8.5'' ''20'') 2 = 20"
  "rowSgpa exact (cgpaPage ''9.14'' ''22'' ''8.5'' ''20'') (Suc 0) = 9.14"
  "rowCredits exact (cgpaPage ''9.14'' ''22'' ''8.5'' ''20'') (Suc 0) = 22"
  "rowSgpa exact (cgpaPage ''9.14'' ''22'' ''8.5'' ''20'') 2 = 8.5"
  "rowCredits exact (cgpaPage ''9.14'' ''22'' ''8.5'' ''20'') 2 = 20"
  by (simp_all add: row_eval page_eval parse_eval round_eval)

lemma cgpa_example_totals:
  "totalCreditPointsOf round64 (cgpaPage ''9.14'' ''22'' ''8.5'' ''20'') =
     3264054198680945 / 8796093022208"
  "totalCreditsOf round64 (cgpaPage ''9.14'' ''22'' ''8.5'' ''20'') = 42"
  by (simp_all add: totalCreditPointsOf_def totalCreditsOf_def cgpa_example_counted
      cgpa_example_rows sumFrom_simps round_eval)

lemma cgpa_example_page:
  "getElementById (cgpaPage s1 c1 s2 c2) ''cgpaOutputSection'' \<noteq> None"
  "\<not> breakdownThrows (cgpaPage s1 c1 s2 c2)"
  by (simp_all add: breakdownThrows_def semesters_list cgpaPage_def page_eval)

text \<open>
  The claim C6 as stated fails when a row that passes the filter has an SGPA above 10:
  with 10.5 and 20 credits in semester 1, one row passes, and the result is neither the
  no-valid-semesters failure nor a CGPA.
\<close>

theorem calculateCGPA_filter_counterexample:
  "counted round64 (cgpaPage ''10.5'' ''20'' '''' '''') = [1] \<and>
   calculateCGPA round64 (cgpaPage ''10.5'' ''20'' '''' '''') = SGPAOutOfRange 1"
  by (simp add: counted_def calculateCGPA_def row_eval semesters_list
      page_eval parse_eval round_eval js_gt_def)

text \<open>
  C6, amended. calculateCGPA keeps the rows whose SGPA and credits both parse and are
  above 0 (a zero, negative, empty or non-numeric value leaves the row out of both sums);
  it fails with the no-valid-semesters message when no row is kept; and otherwise, when no
  kept row has an SGPA above 10, it shows the sum of SGPA times credits divided by the sum
  of credits over exactly the kept rows: the running sums and the quotient of the
  program's arithmetic, whatever the rounding, and with no rounding the quotient of the
  two sums.
\<close>

theorem calculateCGPA_filter:
  assumes out: "getElementById doc ''cgpaOutputSection'' \<noteq> None"
    and rows: "\<not> breakdownThrows doc"
    and range: "\<forall>sem\<in>set (counted rnd doc). rowSgpa rnd doc sem \<le> 10"
  shows "calculateCGPA rnd doc =
           (if counted rnd doc = [] then NoValidSemesters
            else CGPA (js_div rnd (Num (totalCreditPointsOf rnd doc))
                                  (Num (totalCreditsOf rnd doc)))) \<and>
         (rnd = exact \<longrightarrow>
            calculateCGPA rnd doc =
              (if counted rnd doc = [] then NoValidSemesters
               else CGPA (Num ((\<Sum>sem\<leftarrow>counted rnd doc.
                                   rowSgpa rnd doc sem * rowCredits rnd doc sem) /
                               (\<Sum>sem\<leftarrow>counted rnd doc. rowCredits rnd doc sem))))) \<and>
         (\<forall>sem. (sem \<in> set (counted rnd doc)) =
            (sem \<in> {1..8} \<and>
             (\<exists>sv cv s c. getElementById doc (''sgpa'' @ toString sem) = Some sv \<and>
                          getElementById doc (''credits'' @ toString sem) = Some cv \<and>
                          parseFloat rnd sv = Num s \<and> parseFloat rnd cv = Num c \<and>
                          0 < s \<and> 0 < c)))"
proof -
  note loop = cgpaLoop_totals [OF range]
  obtain e where e: "getElementById doc ''cgpaOutputSection'' = Some e"
    using out by auto
  have run: "calculateCGPA rnd doc =
           (if counted rnd doc = [] then NoValidSemesters
            else CGPA (js_div rnd (Num (totalCreditPointsOf rnd doc))
                                  (Num (totalCreditsOf rnd doc))))"
    using loop e rows by (simp add: calculateCGPA_def)
  have plain: "rnd = exact \<longrightarrow>
            calculateCGPA rnd doc =
              (if counted rnd doc = [] then NoValidSemesters
               else CGPA (Num ((\<Sum>sem\<leftarrow>counted rnd doc.
                                   rowSgpa rnd doc sem * rowCredits rnd doc sem) /
                               (\<Sum>sem\<leftarrow>counted rnd doc. rowCredits rnd doc sem))))"
  proof
    assume ex: "rnd = exact"
    show "calculateCGPA rnd doc =
              (if counted rnd doc = [] then NoValidSemesters
               else CGPA (Num ((\<Sum>sem\<leftarrow>counted rnd doc.
                                   rowSgpa rnd doc sem * rowCredits rnd doc sem) /
                               (\<Sum>sem\<leftarrow>counted rnd doc. rowCredits rnd doc sem))))"
    proof (cases "counted rnd doc = []")
      case True
      then show ?thesis using run by simp
    next
      case False
      have "\<forall>sem\<in>set (counted rnd doc). rowCounts rnd doc sem \<and> rowSgpa rnd doc sem \<le> 10"
        using range by (simp add: counted_def)
      then have "0 < (\<Sum>sem\<leftarrow>counted rnd doc. rowCredits rnd doc sem)"
        using counted_sums [OF False] by blast
      then show ?thesis using False run ex by (simp add: totals_exact exact_def)
    qed
  qed
  have members: "\<forall>sem. (sem \<in> set (counted rnd doc)) =
            (sem \<in> {1..8} \<and>
             (\<exists>sv cv s c. getElementById doc (''sgpa'' @ toString sem) = Some sv \<and>
                          getElementById doc (''credits'' @ toString sem) = Some cv \<and>
                          parseFloat rnd sv = Num s \<and> parseFloat rnd cv = Num c \<and>
                          0 < s \<and> 0 < c))"
    unfolding counted_def using rowCounts_iff [of rnd doc] by auto
  show ?thesis using run plain members by blast
qed

text \<open>
  The CGPA example of the specification, in binary64 (8.835238095238097) and with no
  rounding, and a form with one row empty and one row of zeros.
\<close>

theorem calculateCGPA_filter_witness:
  "calculateCGPA round64 (cgpaPage ''9.14'' ''22'' ''8.5'' ''20'') =
     CGPA (Num (621724609272561 / 70368744177664)) \<and>
   calculateCGPA exact (cgpaPage ''9.14'' ''22'' ''8.5'' ''20'') =
     CGPA (Num ((9.14 * 22 + 8.5 * 20) / 42)) \<and>
   calculateCGPA round64 (cgpaPage '''' '''' ''0'' ''0'') = NoValidSemesters"
proof -
  let ?doc = "cgpaPage ''9.14'' ''22'' ''8.5'' ''20''"
  have range: "\<forall>sem\<in>set (counted round64 ?doc). rowSgpa round64 ?doc sem \<le> 10"
    by (simp add: cgpa_example_counted cgpa_example_rows)
  have range_exact: "\<forall>sem\<in>set (counted exact ?doc). rowSgpa exact ?doc sem \<le> 10"
    by (simp add: cgpa_example_counted cgpa_example_rows)
  have none: "\<forall>sem\<in>set (counted round64 (cgpaPage '''' '''' ''0'' ''0'')).
      rowSgpa round64 (cgpaPage '''' '''' ''0'' ''0'') sem \<le> 10"
    by (simp add: cgpa_example_counted)
  have "calculateCGPA round64 ?doc =
      (if counted round64 ?doc = [] then NoValidSemesters
       else CGPA (js_div round64 (Num (totalCreditPointsOf round64 ?doc))
                                 (Num (totalCreditsOf round64 ?doc))))"
    using calculateCGPA_filter [OF cgpa_example_page range] by blast
  then have a: "calculateCGPA round64 ?doc = CGPA (Num (621724609272561 / 70368744177664))"
    by (simp add: cgpa_example_counted cgpa_example_totals round_eval)
  have "calculateCGPA exact ?doc =
      (if counted exact ?doc = [] then NoValidSemesters
       else CGPA (Num ((\<Sum>sem\<leftarrow>counted exact ?doc.
                           rowSgpa exact ?doc sem * rowCredits exact ?doc sem) /
                       (\<Sum>sem\<leftarrow>counted exact ?doc. rowCredits exact ?doc sem))))"
    using calculateCGPA_filter [OF cgpa_example_page range_exact] by blast
  then have b: "calculateCGPA exact ?doc = CGPA (Num ((9.14 * 22 + 8.5 * 20) / 42))"
    by (simp add: cgpa_example_counted cgpa_example_rows)
  have "calculateCGPA round64 (cgpaPage '''' '''' ''0'' ''0'') =
      (if counted round64 (cgpaPage '''' '''' ''0'' ''0'') = [] then NoValidSemesters
       else CGPA (js_div round64
              (Num (totalCreditPointsOf round64 (cgpaPage '''' '''' ''0'' ''0'')))
              (Num (totalCreditsOf round64 (cgpaPage '''' '''' ''0'' ''0'')))))"
    using calculateCGPA_filter [OF cgpa_example_page none] by blast
  then have c: "calculateCGPA round64 (cgpaPage '''' '''' ''0'' ''0'') = NoValidSemesters"
    by (simp add: cgpa_example_counted)
  show ?thesis using a b c by blast
qed

text \<open>
  The claim C7 as stated fails when the row with an SGPA above 10 does not pass the
  filter: with 10.5 and no credits in semester 1, and 9 with 20 credits in semester 2, the
  first row is left out and the CGPA is 9.
\<close>

theorem calculateCGPA_out_of_range_counterexample:
  "js_gt (parseFloat round64 ''10.5'') (Num 10) \<and>
   calculateCGPA round64 (cgpaPage ''10.5'' '''' ''9'' ''20'') = CGPA (Num 9)"
  by (simp add: calculateCGPA_def breakdownThrows_def semesters_list cgpaPage_def
      page_eval parse_eval round_eval js_gt_def)

text \<open>
  C7, amended. If a row that passes the filter (SGPA and credits both numeric and above
  0) has an SGPA above 10, calculateCGPA fails with the message naming the first such
  semester and shows no CGPA, whatever the other rows hold.
\<close>

theorem calculateCGPA_out_of_range:
  assumes out: "getElementById doc ''cgpaOutputSection'' \<noteq> None"
    and sem: "sem \<in> {1..8}"
    and counts: "rowCounts rnd doc sem"
    and high: "10 < rowSgpa rnd doc sem"
    and first: "\<forall>s\<in>{1..<sem}. rowCounts rnd doc s \<longrightarrow> rowSgpa rnd doc s \<le> 10"
  shows "calculateCGPA rnd doc = SGPAOutOfRange sem"
proof -
  have "[1..<9] = [1..<sem] @ [sem..<9]"
    using sem upt_add_eq_append [of 1 sem "9 - sem"] by simp
  moreover have "[sem..<9] = sem # [Suc sem..<9]"
    using sem by (simp add: upt_conv_Cons)
  ultimately have split: "[1..<9] = [1..<sem] @ sem # [Suc sem..<9]"
    by simp
  have before: "\<forall>s\<in>set [1..<sem]. rowCounts rnd doc s \<longrightarrow> rowSgpa rnd doc s \<le> 10"
    using first by simp
  have "cgpaLoop rnd doc [1..<9] (Num 0, Num 0, 0) = Inl sem"
    unfolding split by (rule cgpaLoop_out_of_range [OF before counts high])
  moreover obtain e where "getElementById doc ''cgpaOutputSection'' = Some e"
    using out by auto
  ultimately show ?thesis by (simp add: calculateCGPA_def)
qed

text \<open>
  The example of the specification, an SGPA of 10.5, in semester 1 and in semester 2, next
  to a valid row.
\<close>

theorem calculateCGPA_out_of_range_witness:
  "calculateCGPA round64 (cgpaPage ''10.5'' ''20'' ''9'' ''20'') = SGPAOutOfRange 1 \<and>
   calculateCGPA round64 (cgpaPage ''9'' ''20'' ''10.5'' ''22'') = SGPAOutOfRange 2"
proof -
  let ?a = "cgpaPage ''10.5'' ''20'' ''9'' ''20''"
  let ?b = "cgpaPage ''9'' ''20'' ''10.5'' ''22''"
  have a: "rowCounts round64 ?a (Suc 0)" "10 < rowSgpa round64 ?a (Suc 0)"
    by (simp_all add: row_eval page_eval parse_eval round_eval js_gt_def)
  have b: "rowCounts round64 ?b 2" "10 < rowSgpa round64 ?b 2" "rowSgpa round64 ?b (Suc 0) \<le> 10"
    by (simp_all add: row_eval page_eval parse_eval round_eval js_gt_def)
  have first: "\<forall>s\<in>{1..<2}. rowCounts round64 ?b s \<longrightarrow> rowSgpa round64 ?b s \<le> 10"
  proof
    fix s :: nat
    assume "s \<in> {1..<2}"
    then have "s = Suc 0" by auto
    then show "rowCounts round64 ?b s \<longrightarrow> rowSgpa round64 ?b s \<le> 10" using b(3) by simp
  qed
  show ?thesis
    using calculateCGPA_out_of_range [OF cgpa_example_page(1) _ a, of ]
      calculateCGPA_out_of_range [OF cgpa_example_page(1) _ b(1,2) first]
    by simp
qed




end
